theory Spec2Isabelle
  imports Main
begin

section \<open>JavaScript values\<close>

text \<open>
  The chat client (\<^verbatim>\<open>js/app.js\<close> and its gateway module \<^verbatim>\<open>js/api.js\<close>) stores whatever the
  remote service answers, so the model keeps the answers as untyped JavaScript values.
  Strings are byte lists holding the UTF-8 encoding of the JavaScript string; numbers are
  restricted to integers.
\<close>

datatype json =
    JUndefined
  | JNull
  | JBool bool
  | JNum int
  | JStr string
  | JArr "json list"
  | JObj "(string \<times> json) list"

text \<open>An exception value; the handlers of the client only read \<^verbatim>\<open>e.message\<close>.\<close>

datatype exn = Error string | TypeError string | SyntaxError string

fun message :: "exn \<Rightarrow> string" where
  "message (Error m) = m"
| "message (TypeError m) = m"
| "message (SyntaxError m) = m"

text \<open>JavaScript truthiness, as used by \<^verbatim>\<open>!x\<close>, \<^verbatim>\<open>x && y\<close> and \<^verbatim>\<open>x || y\<close>.\<close>

fun truthy :: "json \<Rightarrow> bool" where
  "truthy JUndefined = False"
| "truthy JNull = False"
| "truthy (JBool b) = b"
| "truthy (JNum n) = (n \<noteq> 0)"
| "truthy (JStr s) = (s \<noteq> [])"
| "truthy (JArr xs) = True"
| "truthy (JObj kvs) = True"

text \<open>\<^verbatim>\<open>Array.isArray(x)\<close>.\<close>

fun isArray :: "json \<Rightarrow> bool" where
  "isArray (JArr xs) = True"
| "isArray v = False"

text \<open>
  Property read \<^verbatim>\<open>x.k\<close> for the two keys the client reads (\<^verbatim>\<open>id\<close> and \<^verbatim>\<open>messages\<close>, which no
  prototype defines): a TypeError on \<^verbatim>\<open>null\<close> and \<^verbatim>\<open>undefined\<close>, the field of an object,
  \<^verbatim>\<open>undefined\<close> on every other value. The text of the TypeError is the engine's (here V8's).
\<close>

fun get_prop :: "json \<Rightarrow> string \<Rightarrow> exn + json" where
  "get_prop JUndefined k =
     Inl (TypeError (''Cannot read properties of undefined (reading '' @ [CHR 0x27] @ k @ [CHR 0x27] @ '')''))"
| "get_prop JNull k =
     Inl (TypeError (''Cannot read properties of null (reading '' @ [CHR 0x27] @ k @ [CHR 0x27] @ '')''))"
| "get_prop (JObj kvs) k = Inr (case map_of kvs k of None \<Rightarrow> JUndefined | Some v \<Rightarrow> v)"
| "get_prop v k = Inr JUndefined"

text \<open>
  Strict equality \<^verbatim>\<open>a === b\<close>. It is structural equality, which is what JavaScript computes
  on strings, numbers, booleans, \<^verbatim>\<open>null\<close> and \<^verbatim>\<open>undefined\<close>. JavaScript compares two objects or
  two arrays by identity, which the model does not track: the definition is exact where
  one of the compared values is a primitive, as the string identifiers of sessions are.
\<close>

definition strict_eq :: "json \<Rightarrow> json \<Rightarrow> bool" where
  "strict_eq a b = (a = b)"

section \<open>Strings\<close>

text \<open>\<^verbatim>\<open>s.includes(pat)\<close>: \<open>pat\<close> occurs in \<open>s\<close> as a contiguous substring.\<close>

primrec includes_str :: "string \<Rightarrow> string \<Rightarrow> bool" where
  "includes_str [] pat = (pat = [])"
| "includes_str (c # cs) pat = (take (length pat) (c # cs) = pat \<or> includes_str cs pat)"

text \<open>\<^verbatim>\<open>s.replace(/\/$/, '')\<close>: one slash at the very end of the string is removed.\<close>

definition replace_trailing_slash :: "string \<Rightarrow> string" where
  "replace_trailing_slash s = (if s \<noteq> [] \<and> last s = CHR ''/'' then butlast s else s)"

text \<open>Decimal rendering of a number in a template literal.\<close>

definition digit_char :: "nat \<Rightarrow> char" where
  "digit_char d = char_of (48 + d)"

fun show_nat :: "nat \<Rightarrow> string" where
  "show_nat n = (if n < 10 then [digit_char n] else show_nat (n div 10) @ [digit_char (n mod 10)])"

definition show_int :: "int \<Rightarrow> string" where
  "show_int i = (if i < 0 then ''-'' @ show_nat (nat (- i)) else show_nat (nat i))"

text \<open>
  \<^verbatim>\<open>s.trim()\<close>. The white space and line terminators of ECMAScript, in UTF-8: the ASCII
  controls 09..0D and the space, U+00A0, U+1680, U+2000..U+200A, U+2028, U+2029, U+202F,
  U+205F, U+3000 and U+FEFF.
\<close>

definition white_space :: "string list" where
  "white_space =
    [[CHR 0x09], [CHR 0x0A], [CHR 0x0B], [CHR 0x0C], [CHR 0x0D], [CHR 0x20],
     [CHR 0xC2, CHR 0xA0],
     [CHR 0xE1, CHR 0x9A, CHR 0x80],
     [CHR 0xE2, CHR 0x80, CHR 0x80], [CHR 0xE2, CHR 0x80, CHR 0x81],
     [CHR 0xE2, CHR 0x80, CHR 0x82], [CHR 0xE2, CHR 0x80, CHR 0x83],
     [CHR 0xE2, CHR 0x80, CHR 0x84], [CHR 0xE2, CHR 0x80, CHR 0x85],
     [CHR 0xE2, CHR 0x80, CHR 0x86], [CHR 0xE2, CHR 0x80, CHR 0x87],
     [CHR 0xE2, CHR 0x80, CHR 0x88], [CHR 0xE2, CHR 0x80, CHR 0x89],
     [CHR 0xE2, CHR 0x80, CHR 0x8A],
     [CHR 0xE2, CHR 0x80, CHR 0xA8], [CHR 0xE2, CHR 0x80, CHR 0xA9],
     [CHR 0xE2, CHR 0x80, CHR 0xAF],
     [CHR 0xE2, CHR 0x81, CHR 0x9F],
     [CHR 0xE3, CHR 0x80, CHR 0x80],
     [CHR 0xEF, CHR 0xBB, CHR 0xBF]]"

text \<open>The number of bytes of the pattern of \<open>pats\<close> that \<open>s\<close> starts with, 0 when there is none.\<close>

primrec leading :: "string list \<Rightarrow> string \<Rightarrow> nat" where
  "leading [] s = 0"
| "leading (p # ps) s = (if p \<noteq> [] \<and> take (length p) s = p then length p else leading ps s)"

function strip_leading :: "string list \<Rightarrow> string \<Rightarrow> string" where
  "strip_leading pats s =
     (if leading pats s = 0 then s else strip_leading pats (drop (leading pats s) s))"
  by pat_completeness auto

termination strip_leading
proof (relation "measure (\<lambda>(pats, s). length s)")
  show "wf (measure (\<lambda>(pats, s). length s))" by simp
next
  fix pats :: "string list" and s :: string
  assume nz: "leading pats s \<noteq> 0"
  have "leading pats s \<le> length s"
  proof (induction pats)
    case Nil
    show ?case by simp
  next
    case (Cons p ps)
    have "take (length p) s = p \<Longrightarrow> length p \<le> length s"
      by (metis length_take min.cobounded1)
    with Cons show ?case by simp
  qed
  with nz show "((pats, drop (leading pats s) s), (pats, s)) \<in> measure (\<lambda>(pats, s). length s)"
    by simp
qed

definition trimStart :: "string \<Rightarrow> string" where
  "trimStart s = strip_leading white_space s"

definition trimEnd :: "string \<Rightarrow> string" where
  "trimEnd s = rev (strip_leading (map rev white_space) (rev s))"

definition trim :: "string \<Rightarrow> string" where
  "trim s = trimEnd (trimStart s)"

section \<open>The texts of the user interface\<close>

text \<open>
  The client's messages are Chinese string literals; each constant below is the UTF-8
  encoding of the literal of \<^verbatim>\<open>js/app.js\<close> named in its comment.
\<close>

definition msg_load_sessions_failed :: string where \<comment> \<open>the prefix of the error of loadSessionsList\<close>
  "msg_load_sessions_failed =
    [CHR 0xE5, CHR 0x8A, CHR 0xA0, CHR 0xE8, CHR 0xBD, CHR 0xBD, CHR 0xE4, CHR 0xBC,
     CHR 0x9A, CHR 0xE8, CHR 0xAF, CHR 0x9D, CHR 0xE5, CHR 0x88, CHR 0x97, CHR 0xE8,
     CHR 0xA1, CHR 0xA8, CHR 0xE5, CHR 0xA4, CHR 0xB1, CHR 0xE8, CHR 0xB4, CHR 0xA5,
     CHR 0xEF, CHR 0xBC, CHR 0x9A]"

definition msg_create_session_failed :: string where \<comment> \<open>the prefix of the error of createNewSession\<close>
  "msg_create_session_failed =
    [CHR 0xE6, CHR 0x96, CHR 0xB0, CHR 0xE5, CHR 0xBB, CHR 0xBA, CHR 0xE4, CHR 0xBC,
     CHR 0x9A, CHR 0xE8, CHR 0xAF, CHR 0x9D, CHR 0xE5, CHR 0xA4, CHR 0xB1, CHR 0xE8,
     CHR 0xB4, CHR 0xA5, CHR 0xEF, CHR 0xBC, CHR 0x9A]"

definition msg_load_messages_failed :: string where \<comment> \<open>the prefix of the error of loadMessagesList\<close>
  "msg_load_messages_failed =
    [CHR 0xE5, CHR 0x8A, CHR 0xA0, CHR 0xE8, CHR 0xBD, CHR 0xBD, CHR 0xE6, CHR 0xB6,
     CHR 0x88, CHR 0xE6, CHR 0x81, CHR 0xAF, CHR 0xE5, CHR 0xA4, CHR 0xB1, CHR 0xE8,
     CHR 0xB4, CHR 0xA5, CHR 0xEF, CHR 0xBC, CHR 0x9A]"

definition msg_select_session_first :: string where \<comment> \<open>the message of sendMsg when no session is selected\<close>
  "msg_select_session_first =
    [CHR 0xE8, CHR 0xAF, CHR 0xB7, CHR 0xE5, CHR 0x85, CHR 0x88, CHR 0xE9, CHR 0x80,
     CHR 0x89, CHR 0xE6, CHR 0x8B, CHR 0xA9, CHR 0xE6, CHR 0x88, CHR 0x96, CHR 0xE5,
     CHR 0x88, CHR 0x9B, CHR 0xE5, CHR 0xBB, CHR 0xBA, CHR 0xE4, CHR 0xBC, CHR 0x9A,
     CHR 0xE8, CHR 0xAF, CHR 0x9D]"

definition msg_send_failed :: string where \<comment> \<open>the prefix of the error of sendMsg\<close>
  "msg_send_failed =
    [CHR 0xE5, CHR 0x8F, CHR 0x91, CHR 0xE9, CHR 0x80, CHR 0x81, CHR 0xE6, CHR 0xB6,
     CHR 0x88, CHR 0xE6, CHR 0x81, CHR 0xAF, CHR 0xE5, CHR 0xA4, CHR 0xB1, CHR 0xE8,
     CHR 0xB4, CHR 0xA5, CHR 0xEF, CHR 0xBC, CHR 0x9A]"

definition msg_rollback_failed :: string where \<comment> \<open>the prefix of the error of rollbackTo\<close>
  "msg_rollback_failed =
    [CHR 0xE5, CHR 0x9B, CHR 0x9E, CHR 0xE6, CHR 0xBB, CHR 0x9A, CHR 0xE5, CHR 0xA4,
     CHR 0xB1, CHR 0xE8, CHR 0xB4, CHR 0xA5, CHR 0xEF, CHR 0xBC, CHR 0x9A]"

definition msg_delete_message_failed :: string where \<comment> \<open>the prefix of the error of deleteMsg\<close>
  "msg_delete_message_failed =
    [CHR 0xE5, CHR 0x88, CHR 0xA0, CHR 0xE9, CHR 0x99, CHR 0xA4, CHR 0xE6, CHR 0xB6,
     CHR 0x88, CHR 0xE6, CHR 0x81, CHR 0xAF, CHR 0xE5, CHR 0xA4, CHR 0xB1, CHR 0xE8,
     CHR 0xB4, CHR 0xA5, CHR 0xEF, CHR 0xBC, CHR 0x9A]"

definition msg_delete_session_failed :: string where \<comment> \<open>the prefix of the error of deleteSess\<close>
  "msg_delete_session_failed =
    [CHR 0xE5, CHR 0x88, CHR 0xA0, CHR 0xE9, CHR 0x99, CHR 0xA4, CHR 0xE4, CHR 0xBC,
     CHR 0x9A, CHR 0xE8, CHR 0xAF, CHR 0x9D, CHR 0xE5, CHR 0xA4, CHR 0xB1, CHR 0xE8,
     CHR 0xB4, CHR 0xA5, CHR 0xEF, CHR 0xBC, CHR 0x9A]"

definition confirm_delete_message_pre :: string where \<comment> \<open>the question of deleteMsg, before the position\<close>
  "confirm_delete_message_pre =
    [CHR 0xE7, CHR 0xA1, CHR 0xAE, CHR 0xE5, CHR 0xAE, CHR 0x9A, CHR 0xE8, CHR 0xA6,
     CHR 0x81, CHR 0xE5, CHR 0x88, CHR 0xA0, CHR 0xE9, CHR 0x99, CHR 0xA4, CHR 0xE7,
     CHR 0xAC, CHR 0xAC, CHR 0x20]"

definition confirm_delete_message_post :: string where \<comment> \<open>the question of deleteMsg, after the position\<close>
  "confirm_delete_message_post =
    [CHR 0x20, CHR 0xE6, CHR 0x9D, CHR 0xA1, CHR 0xE6, CHR 0xB6, CHR 0x88, CHR 0xE6,
     CHR 0x81, CHR 0xAF, CHR 0xE5, CHR 0x90, CHR 0x97, CHR 0xEF, CHR 0xBC, CHR 0x9F]"

definition confirm_delete_session_pre :: string where \<comment> \<open>the question of deleteSess, before the identifier\<close>
  "confirm_delete_session_pre =
    [CHR 0xE7, CHR 0xA1, CHR 0xAE, CHR 0xE5, CHR 0xAE, CHR 0x9A, CHR 0xE8, CHR 0xA6,
     CHR 0x81, CHR 0xE5, CHR 0x88, CHR 0xA0, CHR 0xE9, CHR 0x99, CHR 0xA4, CHR 0xE4,
     CHR 0xBC, CHR 0x9A, CHR 0xE8, CHR 0xAF, CHR 0x9D, CHR 0x20, CHR 0x22]"

definition confirm_delete_session_post :: string where \<comment> \<open>the question of deleteSess, after the identifier\<close>
  "confirm_delete_session_post =
    [CHR 0x22, CHR 0x20, CHR 0xE5, CHR 0x90, CHR 0x97, CHR 0xEF, CHR 0xBC, CHR 0x9F,
     CHR 0xE6, CHR 0xAD, CHR 0xA4, CHR 0xE6, CHR 0x93, CHR 0x8D, CHR 0xE4, CHR 0xBD,
     CHR 0x9C, CHR 0xE4, CHR 0xB8, CHR 0x8D, CHR 0xE5, CHR 0x8F, CHR 0xAF, CHR 0xE6,
     CHR 0x92, CHR 0xA4, CHR 0xE9, CHR 0x94, CHR 0x80, CHR 0xE3, CHR 0x80, CHR 0x82]"

section \<open>The platform\<close>

text \<open>
  What the browser provides is a parameter of the model. The world \<open>'w\<close> is everything
  outside the page: the remote service, the network, the user and the wall clock.
  \<^item> \<open>fetch\<close> performs one HTTP exchange: it rejects with an exception or resolves to a
    response, and leaves the world changed;
  \<^item> \<open>confirm\<close> is the blocking dialog \<^verbatim>\<open>confirm(text)\<close> and the user's answer;
  \<^item> \<open>clock\<close> is the time in milliseconds; \<open>toISOString\<close> renders it as \<^verbatim>\<open>Date\<close> does;
  \<^item> \<open>toString\<close> is the string conversion of a value inside a template literal or an
    argument; \<open>encodeURIComponent\<close> and \<open>stringify\<close> (\<^verbatim>\<open>JSON.stringify\<close>) are the built-ins.
\<close>

record response =
  status :: nat
  statusText :: string
  content_type :: "string option" \<comment> \<open>\<^verbatim>\<open>res.headers.get('content-type')\<close>, None for \<^verbatim>\<open>null\<close>\<close>
  json_body :: "exn + json" \<comment> \<open>what \<^verbatim>\<open>res.json()\<close> settles to\<close>
  text_body :: "exn + string" \<comment> \<open>what \<^verbatim>\<open>res.text()\<close> settles to\<close>

text \<open>\<^verbatim>\<open>res.ok\<close>, which the Fetch standard defines as a status in the range 200 to 299.\<close>

definition ok :: "response \<Rightarrow> bool" where
  "ok res = (200 \<le> status res \<and> status res \<le> 299)"

record request_init =
  headers :: "(string \<times> string) list"
  http_method :: string
  body :: "json option"

record 'w platform =
  fetch :: "string \<Rightarrow> request_init \<Rightarrow> 'w \<Rightarrow> (exn + response) \<times> 'w"
  confirm :: "string \<Rightarrow> 'w \<Rightarrow> bool \<times> 'w"
  clock :: "'w \<Rightarrow> nat"
  toISOString :: "nat \<Rightarrow> string"
  toString :: "json \<Rightarrow> string"
  encodeURIComponent :: "string \<Rightarrow> string"
  stringify :: "json \<Rightarrow> string"

section \<open>The gateway (\<^verbatim>\<open>js/api.js\<close>)\<close>

text \<open>The \<^verbatim>\<open>options\<close> argument of \<^verbatim>\<open>apiFetch\<close>: the callers pass a method and sometimes a body.\<close>

record api_options =
  opt_method :: string
  opt_body :: "json option"

text \<open>The constant \<^verbatim>\<open>url\<close> of \<^verbatim>\<open>apiFetch\<close>.\<close>

definition request_url :: "string \<Rightarrow> string \<Rightarrow> string" where
  "request_url apiBase path = replace_trailing_slash apiBase @ path"

text \<open>
  \<^verbatim>\<open>if (opt.body && typeof opt.body !== 'string') opt.body = JSON.stringify(opt.body)\<close>
\<close>

definition serialize_body :: "'w platform \<Rightarrow> json \<Rightarrow> json" where
  "serialize_body P b =
     (if truthy b \<and> (case b of JStr s \<Rightarrow> False | _ \<Rightarrow> True) then JStr (stringify P b) else b)"

text \<open>
  \<^verbatim>\<open>apiFetch\<close>. The result is what the returned promise settles to: \<open>Inl\<close> a rejection,
  \<open>Inr\<close> the value. Reading the body is part of the same exchange with the world.
\<close>

definition apiFetch ::
  "'w platform \<Rightarrow> string \<Rightarrow> string \<Rightarrow> api_options \<Rightarrow> 'w \<Rightarrow> (exn + json) \<times> 'w" where
  "apiFetch P apiBase path options w =
     (let url = request_url apiBase path;
          opt = \<lparr>headers = [(''Content-Type'', ''application/json'')],
                 http_method = opt_method options,
                 body = map_option (serialize_body P) (opt_body options)\<rparr>
      in case fetch P url opt w of
           (Inl e, w') \<Rightarrow> (Inl e, w')
         | (Inr res, w') \<Rightarrow>
             if \<not> ok res
             then (Inl (Error (''API error: '' @ show_nat (status res) @ '' '' @ statusText res)), w')
             else
               (let contentType = (case content_type res of None \<Rightarrow> [] | Some c \<Rightarrow> c)
                in if includes_str contentType ''application/json''
                   then (json_body res, w')
                   else (map_sum id JStr (text_body res), w')))"

definition loadSessions :: "'w platform \<Rightarrow> string \<Rightarrow> 'w \<Rightarrow> (exn + json) \<times> 'w" where
  "loadSessions P apiBase w =
     apiFetch P apiBase ''/sessions'' \<lparr>opt_method = ''GET'', opt_body = None\<rparr> w"

definition createSession :: "'w platform \<Rightarrow> string \<Rightarrow> 'w \<Rightarrow> (exn + json) \<times> 'w" where
  "createSession P apiBase w =
     apiFetch P apiBase ''/sessions'' \<lparr>opt_method = ''POST'', opt_body = None\<rparr> w"

definition getMessages :: "'w platform \<Rightarrow> string \<Rightarrow> json \<Rightarrow> 'w \<Rightarrow> (exn + json) \<times> 'w" where
  "getMessages P apiBase sessionId w =
     apiFetch P apiBase
       (''/sessions/'' @ encodeURIComponent P (toString P sessionId) @ ''/messages'')
       \<lparr>opt_method = ''GET'', opt_body = None\<rparr> w"

definition sendMessage ::
  "'w platform \<Rightarrow> string \<Rightarrow> json \<Rightarrow> string \<Rightarrow> 'w \<Rightarrow> (exn + json) \<times> 'w" where
  "sendMessage P apiBase sessionId content w =
     apiFetch P apiBase
       (''/sessions/'' @ encodeURIComponent P (toString P sessionId) @ ''/messages'')
       \<lparr>opt_method = ''POST'', opt_body = Some (JObj [(''content'', JStr content)])\<rparr> w"

definition rollback ::
  "'w platform \<Rightarrow> string \<Rightarrow> json \<Rightarrow> int \<Rightarrow> 'w \<Rightarrow> (exn + json) \<times> 'w" where
  "rollback P apiBase sessionId toIndex w =
     apiFetch P apiBase
       (''/sessions/'' @ encodeURIComponent P (toString P sessionId) @ ''/rollback'')
       \<lparr>opt_method = ''POST'', opt_body = Some (JObj [(''to_index'', JNum toIndex)])\<rparr> w"

definition deleteMessage ::
  "'w platform \<Rightarrow> string \<Rightarrow> json \<Rightarrow> int \<Rightarrow> 'w \<Rightarrow> (exn + json) \<times> 'w" where
  "deleteMessage P apiBase sessionId msgIndex w =
     apiFetch P apiBase
       (''/sessions/'' @ encodeURIComponent P (toString P sessionId) @ ''/messages/''
          @ show_int msgIndex)
       \<lparr>opt_method = ''DELETE'', opt_body = None\<rparr> w"

definition deleteSession :: "'w platform \<Rightarrow> string \<Rightarrow> json \<Rightarrow> 'w \<Rightarrow> (exn + json) \<times> 'w" where
  "deleteSession P apiBase sessionId w =
     apiFetch P apiBase
       (''/sessions/'' @ encodeURIComponent P (toString P sessionId))
       \<lparr>opt_method = ''DELETE'', opt_body = None\<rparr> w"

section \<open>The controller (\<^verbatim>\<open>setupApp\<close> of \<^verbatim>\<open>js/app.js\<close>)\<close>

text \<open>
  The reactive state of \<^verbatim>\<open>setupApp\<close>. \<open>sessions\<close> is always an array; the selected-session
  pointer and the message list hold whatever was last assigned to them. \<open>timeouts\<close> is the
  queue of the callbacks that \<^verbatim>\<open>setError\<close> has passed to \<^verbatim>\<open>setTimeout\<close> and that have not
  run yet, each with the time at which it is due; every one of them does
  \<^verbatim>\<open>error.value = ''\<close>. The theme and the reference to the scroll container, which only
  the presentation uses, are left out.
\<close>

record state =
  apiBase :: string
  sessions :: "json list"
  currentSessionId :: json
  messages :: json
  newMessage :: string
  loading :: bool
  error :: string
  timeouts :: "nat list"

definition initial_state :: state where
  "initial_state =
     \<lparr>apiBase = ''http://127.0.0.1:8000/api'', sessions = [], currentSessionId = JNull,
      messages = JArr [], newMessage = [], loading = False, error = [], timeouts = []\<rparr>"

text \<open>\<^verbatim>\<open>setError(msg)\<close>, called at time \<open>now\<close>.\<close>

definition setError :: "nat \<Rightarrow> string \<Rightarrow> state \<Rightarrow> state" where
  "setError now msg st =
     st\<lparr>error := msg,
        timeouts := (if msg \<noteq> [] then timeouts st @ [now + 5000] else timeouts st)\<rparr>"

text \<open>
  The event loop runs the timer callbacks that are due at time \<open>now\<close>: each clears the
  error slot and leaves the queue.
\<close>

definition fire_timeouts :: "nat \<Rightarrow> state \<Rightarrow> state" where
  "fire_timeouts now st =
     st\<lparr>error := (if filter (\<lambda>d. d \<le> now) (timeouts st) = [] then error st else []),
        timeouts := filter (\<lambda>d. now < d) (timeouts st)\<rparr>"

text \<open>
  The state in which an \<^verbatim>\<open>await\<close> of a gateway call continues in world \<open>w\<close>: the callbacks
  that came due while the call was outstanding have run.
\<close>

definition resume :: "'w platform \<Rightarrow> 'w \<Rightarrow> state \<Rightarrow> state" where
  "resume P w st = fire_timeouts (clock P w) st"

text \<open>\<^verbatim>\<open>loadMessagesList\<close>. (\<^verbatim>\<open>scrollToBottom\<close> only touches the document and is left out.)\<close>

definition loadMessagesList :: "'w platform \<Rightarrow> state \<Rightarrow> 'w \<Rightarrow> state \<times> 'w" where
  "loadMessagesList P st w =
     (if \<not> truthy (currentSessionId st) then (st, w)
      else
        (let st1 = (setError (clock P w) [] st)\<lparr>loading := True\<rparr>
         in case getMessages P (apiBase st1) (currentSessionId st1) w of
              (Inr data, w1) \<Rightarrow>
                (let st2 = resume P w1 st1
                 in (st2\<lparr>messages := (if isArray data then data else JArr []),
                         loading := False\<rparr>, w1))
            | (Inl e, w1) \<Rightarrow>
                (let st2 = resume P w1 st1
                 in ((setError (clock P w1) (msg_load_messages_failed @ message e) st2)
                       \<lparr>loading := False\<rparr>, w1))))"

text \<open>
  \<^verbatim>\<open>loadSessionsList\<close>. The read \<^verbatim>\<open>sessions.value[0].id\<close> throws when the first element is
  \<^verbatim>\<open>null\<close>; the handler of the function catches it.
\<close>

definition loadSessionsList :: "'w platform \<Rightarrow> state \<Rightarrow> 'w \<Rightarrow> state \<times> 'w" where
  "loadSessionsList P st w =
     (let st1 = setError (clock P w) [] st
      in case loadSessions P (apiBase st1) w of
           (Inr data, w1) \<Rightarrow>
             (let st2 = (resume P w1 st1)
                          \<lparr>sessions := (case data of JArr xs \<Rightarrow> xs | _ \<Rightarrow> [])\<rparr>
              in if sessions st2 \<noteq> [] \<and> \<not> truthy (currentSessionId st2)
                 then (case get_prop (hd (sessions st2)) ''id'' of
                         Inr v \<Rightarrow> loadMessagesList P (st2\<lparr>currentSessionId := v\<rparr>) w1
                       | Inl e \<Rightarrow>
                           (setError (clock P w1) (msg_load_sessions_failed @ message e) st2, w1))
                 else (st2, w1))
         | (Inl e, w1) \<Rightarrow>
             (setError (clock P w1) (msg_load_sessions_failed @ message e) (resume P w1 st1), w1))"

text \<open>\<^verbatim>\<open>selectSession(id)\<close>.\<close>

definition selectSession :: "'w platform \<Rightarrow> json \<Rightarrow> state \<Rightarrow> 'w \<Rightarrow> state \<times> 'w" where
  "selectSession P ident st w =
     (if \<not> truthy ident \<or> strict_eq ident (currentSessionId st) then (st, w)
      else loadMessagesList P (st\<lparr>currentSessionId := ident\<rparr>) w)"

text \<open>\<^verbatim>\<open>createNewSession\<close>.\<close>

definition createNewSession :: "'w platform \<Rightarrow> state \<Rightarrow> 'w \<Rightarrow> state \<times> 'w" where
  "createNewSession P st w =
     (let st1 = (setError (clock P w) [] st)\<lparr>loading := True\<rparr>
      in case createSession P (apiBase st1) w of
           (Inr created, w1) \<Rightarrow>
             (case loadSessionsList P ((resume P w1 st1)\<lparr>messages := JArr []\<rparr>) w1 of
                (st2, w2) \<Rightarrow> (st2\<lparr>loading := False\<rparr>, w2))
         | (Inl e, w1) \<Rightarrow>
             ((setError (clock P w1) (msg_create_session_failed @ message e) (resume P w1 st1))
                \<lparr>loading := False\<rparr>, w1))"

text \<open>\<^verbatim>\<open>data && data.k\<close>: the left operand when it is falsy, the property otherwise.\<close>

definition and_prop :: "json \<Rightarrow> string \<Rightarrow> json" where
  "and_prop data k =
     (if truthy data then (case get_prop data k of Inr v \<Rightarrow> v | Inl e \<Rightarrow> JUndefined) else data)"

text \<open>
  The block that \<^verbatim>\<open>sendMsg\<close>, \<^verbatim>\<open>rollbackTo\<close> and \<^verbatim>\<open>deleteMsg\<close> each run on a successful answer:
  \<^verbatim>\<open>if (Array.isArray(data)) messages.value = data;
  else if (data && data.messages) messages.value = data.messages;\<close>
\<close>

definition store_messages :: "json \<Rightarrow> state \<Rightarrow> state" where
  "store_messages data st =
     (if isArray data then st\<lparr>messages := data\<rparr>
      else if truthy (and_prop data ''messages'') then st\<lparr>messages := and_prop data ''messages''\<rparr>
      else st)"

text \<open>\<^verbatim>\<open>messages.value.pop()\<close>, which \<^verbatim>\<open>sendMsg\<close> only reaches with the array it has pushed to.\<close>

fun pop :: "json \<Rightarrow> json" where
  "pop (JArr xs) = JArr (butlast xs)"
| "pop v = v"

text \<open>
  \<^verbatim>\<open>sendMsg\<close>. The first component of the result is the rejection of the returned promise,
  if any: \<^verbatim>\<open>messages.value.push\<close> stands outside the \<^verbatim>\<open>try\<close> block and throws when the
  message list is not an array. (The timer that fades the last reply out only touches the
  document and is left out.)
\<close>

definition sendMsg :: "'w platform \<Rightarrow> state \<Rightarrow> 'w \<Rightarrow> exn option \<times> state \<times> 'w" where
  "sendMsg P st w =
     (if \<not> truthy (currentSessionId st)
      then (None, setError (clock P w) msg_select_session_first st, w)
      else
        (let text = trim (newMessage st)
         in if text = [] \<or> \<not> truthy (currentSessionId st) then (None, st, w)
            else
              (let st1 = (setError (clock P w) [] st)\<lparr>loading := True\<rparr>;
                   userMsg = JObj [(''role'', JStr ''user''), (''content'', JStr text),
                                   (''created_at'', JStr (toISOString P (clock P w)))]
               in case messages st1 of
                    JArr ms \<Rightarrow>
                      (let st2 = st1\<lparr>messages := JArr (ms @ [userMsg]), newMessage := []\<rparr>
                       in case sendMessage P (apiBase st2) (currentSessionId st2) text w of
                            (Inr data, w1) \<Rightarrow>
                              (case loadSessionsList P (store_messages data (resume P w1 st2)) w1 of
                                 (st3, w2) \<Rightarrow> (None, st3\<lparr>loading := False\<rparr>, w2))
                          | (Inl e, w1) \<Rightarrow>
                              (let st3 = resume P w1 st2;
                                   st4 = st3\<lparr>messages := pop (messages st3)\<rparr>
                               in (None,
                                   (setError (clock P w1) (msg_send_failed @ message e) st4)
                                     \<lparr>loading := False\<rparr>, w1)))
                  | _ \<Rightarrow> (Some (TypeError ''messages.value.push is not a function''), st1, w))))"

text \<open>\<^verbatim>\<open>rollbackTo(index)\<close>.\<close>

definition rollbackTo :: "'w platform \<Rightarrow> int \<Rightarrow> state \<Rightarrow> 'w \<Rightarrow> state \<times> 'w" where
  "rollbackTo P index st w =
     (if \<not> truthy (currentSessionId st) then (st, w)
      else
        (let st1 = (setError (clock P w) [] st)\<lparr>loading := True\<rparr>
         in case rollback P (apiBase st1) (currentSessionId st1) index w of
              (Inr data, w1) \<Rightarrow>
                (case loadSessionsList P (store_messages data (resume P w1 st1)) w1 of
                   (st2, w2) \<Rightarrow> (st2\<lparr>loading := False\<rparr>, w2))
            | (Inl e, w1) \<Rightarrow>
                ((setError (clock P w1) (msg_rollback_failed @ message e) (resume P w1 st1))
                   \<lparr>loading := False\<rparr>, w1)))"

text \<open>\<^verbatim>\<open>deleteMsg(index)\<close>.\<close>

definition deleteMsg :: "'w platform \<Rightarrow> int \<Rightarrow> state \<Rightarrow> 'w \<Rightarrow> state \<times> 'w" where
  "deleteMsg P index st w =
     (if \<not> truthy (currentSessionId st) then (st, w)
      else
        (case confirm P (confirm_delete_message_pre @ show_int (index + 1)
                           @ confirm_delete_message_post) w of
           (answer, w0) \<Rightarrow>
             if \<not> answer then (st, w0)
             else
               (let st1 = (setError (clock P w0) [] st)\<lparr>loading := True\<rparr>
                in case deleteMessage P (apiBase st1) (currentSessionId st1) index w0 of
                     (Inr data, w1) \<Rightarrow>
                       (case loadSessionsList P (store_messages data (resume P w1 st1)) w1 of
                          (st2, w2) \<Rightarrow> (st2\<lparr>loading := False\<rparr>, w2))
                   | (Inl e, w1) \<Rightarrow>
                       ((setError (clock P w1) (msg_delete_message_failed @ message e)
                           (resume P w1 st1))\<lparr>loading := False\<rparr>, w1))))"

text \<open>\<^verbatim>\<open>deleteSess(sessionId)\<close>, exported as \<^verbatim>\<open>deleteSession\<close>.\<close>

definition deleteSess :: "'w platform \<Rightarrow> json \<Rightarrow> state \<Rightarrow> 'w \<Rightarrow> state \<times> 'w" where
  "deleteSess P sessionId st w =
     (case confirm P (confirm_delete_session_pre @ toString P sessionId
                        @ confirm_delete_session_post) w of
        (answer, w0) \<Rightarrow>
          if \<not> answer then (st, w0)
          else
            (let st1 = (setError (clock P w0) [] st)\<lparr>loading := True\<rparr>
             in case deleteSession P (apiBase st1) sessionId w0 of
                  (Inr deleted, w1) \<Rightarrow>
                    (case loadSessionsList P (resume P w1 st1) w1 of
                       (st2, w2) \<Rightarrow>
                         if strict_eq (currentSessionId st2) sessionId
                         then
                           (if sessions st2 \<noteq> []
                            then (case get_prop (hd (sessions st2)) ''id'' of
                                    Inr v \<Rightarrow>
                                      (case loadMessagesList P (st2\<lparr>currentSessionId := v\<rparr>) w2 of
                                         (st3, w3) \<Rightarrow> (st3\<lparr>loading := False\<rparr>, w3))
                                  | Inl e \<Rightarrow>
                                      ((setError (clock P w2)
                                          (msg_delete_session_failed @ message e) st2)
                                         \<lparr>loading := False\<rparr>, w2))
                            else (st2\<lparr>currentSessionId := JNull, messages := JArr [],
                                       loading := False\<rparr>, w2))
                         else (st2\<lparr>loading := False\<rparr>, w2))
                | (Inl e, w1) \<Rightarrow>
                    ((setError (clock P w1) (msg_delete_session_failed @ message e)
                        (resume P w1 st1))\<lparr>loading := False\<rparr>, w1)))"

section \<open>Notions used in the statements\<close>

text \<open>What an observer of the controller sees: the session list, the pointer, the messages.\<close>

definition observable :: "state \<Rightarrow> json list \<times> json \<times> json" where
  "observable st = (sessions st, currentSessionId st, messages st)"

text \<open>The identifiers of a list of sessions, \<^verbatim>\<open>undefined\<close> where an element has none.\<close>

definition session_ids :: "json list \<Rightarrow> json list" where
  "session_ids xs = map (\<lambda>s. case get_prop s ''id'' of Inr v \<Rightarrow> v | Inl e \<Rightarrow> JUndefined) xs"

text \<open>
  The invariant of the selected-session pointer: when sessions exist locally, the pointer
  is the identifier of one of them and is not \<^verbatim>\<open>null\<close>.
\<close>

definition pointer_ok :: "state \<Rightarrow> bool" where
  "pointer_ok st =
     (if sessions st = [] then True
      else currentSessionId st \<in> set (session_ids (sessions st)) \<and> currentSessionId st \<noteq> JNull)"

text \<open>An object that has the field \<open>k\<close>.\<close>

fun has_field :: "json \<Rightarrow> string \<Rightarrow> bool" where
  "has_field (JObj kvs) k = (map_of kvs k \<noteq> None)"
| "has_field v k = False"

text \<open>The inverse of \<open>show_nat\<close>: the number a string of decimal digits denotes.\<close>

definition read_nat :: "string \<Rightarrow> nat" where
  "read_nat s = foldl (\<lambda>a c. 10 * a + (of_char c - 48)) 0 s"

text \<open>
  What a refresh makes of the local session list \<open>xs\<close> and of the pointer \<open>p\<close>, given what the
  call \<^verbatim>\<open>loadSessions\<close> settled to: the list is replaced by a returned array, emptied by any
  other value and kept on a rejection; a truthy pointer is kept, and a falsy one becomes
  the identifier of the first element of a returned non-empty array.
\<close>

definition refreshed_sessions :: "json list \<Rightarrow> exn + json \<Rightarrow> json list" where
  "refreshed_sessions xs answer =
     (case answer of Inr (JArr ys) \<Rightarrow> ys | Inr other \<Rightarrow> [] | Inl e \<Rightarrow> xs)"

definition refreshed_pointer :: "json \<Rightarrow> exn + json \<Rightarrow> json" where
  "refreshed_pointer p answer =
     (if truthy p then p
      else case answer of
             Inr (JArr (s # rest)) \<Rightarrow> (case get_prop s ''id'' of Inr v \<Rightarrow> v | Inl e \<Rightarrow> p)
           | _ \<Rightarrow> p)"

section \<open>A scripted platform\<close>

text \<open>
  A concrete platform on which the model runs: the world is the time and a queue of the
  exchanges to come, each with its duration in milliseconds and its outcome. \<open>fetch\<close>
  takes the next exchange; with none left the network is down. The user answers yes.
\<close>

type_synonym script = "nat \<times> (nat \<times> (exn + response)) list"

definition scripted :: "script platform" where
  "scripted =
     \<lparr>fetch = (\<lambda>url init (t, q).
                 case q of
                   [] \<Rightarrow> (Inl (TypeError ''Failed to fetch''), (t, []))
                 | (d, r) # q' \<Rightarrow> (r, (t + d, q'))),
      confirm = (\<lambda>question w. (True, w)),
      clock = fst,
      toISOString = show_nat,
      toString = (\<lambda>v. case v of JStr s \<Rightarrow> s | _ \<Rightarrow> ''[object Object]''),
      encodeURIComponent = (\<lambda>s. s),
      stringify = (\<lambda>v. ''{}'')\<rparr>"

definition json_response :: "json \<Rightarrow> exn + response" where
  "json_response v =
     Inr \<lparr>status = 200, statusText = ''OK'', content_type = Some ''application/json'',
          json_body = Inr v, text_body = Inl (TypeError ''body stream already read'')\<rparr>"

definition error_response :: "nat \<Rightarrow> string \<Rightarrow> exn + response" where
  "error_response code reason =
     Inr \<lparr>status = code, statusText = reason, content_type = Some ''application/json'',
          json_body = Inr (JObj [(''detail'', JStr reason)]),
          text_body = Inl (TypeError ''body stream already read'')\<rparr>"

definition text_response :: "string \<Rightarrow> exn + response" where
  "text_response s =
     Inr \<lparr>status = 200, statusText = ''OK'', content_type = Some ''text/plain'',
          json_body = Inl (SyntaxError ''Unexpected token''), text_body = Inr s\<rparr>"

definition session :: "string \<Rightarrow> json" where
  "session ident =
     JObj [(''id'', JStr ident), (''name'', JStr ident), (''message_count'', JNum 0),
           (''updated_at'', JStr ''2025-11-20T10:30:00'')]"

definition chat_message :: "string \<Rightarrow> string \<Rightarrow> json" where
  "chat_message role content =
     JObj [(''role'', JStr role), (''content'', JStr content),
           (''created_at'', JStr ''2025-11-20T10:30:00'')]"

text \<open>A state with session \<open>s1\<close> selected and four messages, the user typing \<open>hello\<close>.\<close>

definition chatting :: state where
  "chatting =
     initial_state\<lparr>sessions := [session ''s1'', session ''s2''],
                   currentSessionId := JStr ''s1'',
                   messages := JArr [chat_message ''user'' ''u0'', chat_message ''assistant'' ''a0'',
                                     chat_message ''user'' ''u1'', chat_message ''assistant'' ''a1''],
                   newMessage := '' hello ''\<rparr>"

section \<open>Facts about the string functions\<close>

lemma includes_str_iff: "includes_str s pat \<longleftrightarrow> (\<exists>pre suf. s = pre @ pat @ suf)"
proof (induction s)
  case Nil
  show ?case by auto
next
  case (Cons c cs)
  have pre: "take (length pat) (c # cs) = pat \<longleftrightarrow> (\<exists>suf. c # cs = pat @ suf)"
    by (metis append_eq_conv_conj)
  show ?case
  proof
    assume "includes_str (c # cs) pat"
    then consider "take (length pat) (c # cs) = pat" | "includes_str cs pat" by auto
    then show "\<exists>pre suf. c # cs = pre @ pat @ suf"
    proof cases
      case 1
      then obtain suf where "c # cs = pat @ suf" using pre by blast
      then have "c # cs = [] @ pat @ suf" by simp
      then show ?thesis by blast
    next
      case 2
      then obtain p suf where "cs = p @ pat @ suf" using Cons.IH by blast
      then have "c # cs = (c # p) @ pat @ suf" by simp
      then show ?thesis by blast
    qed
  next
    assume "\<exists>pre suf. c # cs = pre @ pat @ suf"
    then obtain p suf where e: "c # cs = p @ pat @ suf" by blast
    show "includes_str (c # cs) pat"
    proof (cases p)
      case Nil
      with e have "c # cs = pat @ suf" by simp
      then have "take (length pat) (c # cs) = pat" using pre by blast
      then show ?thesis by simp
    next
      case (Cons a p')
      with e have "cs = p' @ pat @ suf" by simp
      then have "includes_str cs pat" using Cons.IH by blast
      then show ?thesis by simp
    qed
  qed
qed

lemma digit_val: "d < 10 \<Longrightarrow> of_char (digit_char d) - 48 = (d::nat)"
  by (simp add: digit_char_def)

lemma read_show: "read_nat (show_nat n) = n"
proof (induction n rule: show_nat.induct)
  case (1 n)
  show ?case
  proof (cases "n < 10")
    case True
    then show ?thesis by (simp add: read_nat_def digit_val)
  next
    case False
    then have "read_nat (show_nat (n div 10)) = n div 10" using 1 by simp
    moreover have "show_nat n = show_nat (n div 10) @ [digit_char (n mod 10)]" using False by simp
    ultimately show ?thesis by (simp add: read_nat_def digit_val del: show_nat.simps)
  qed
qed

section \<open>The gateway\<close>

text \<open>
  C8. Whatever response \<open>fetch\<close> resolves to: a status outside 200..299 makes \<^verbatim>\<open>apiFetch\<close> reject
  with the error \<^verbatim>\<open>API error: <status> <statusText>\<close>, from whose text the status can be read
  back; with a status inside the range, the result is that of \<^verbatim>\<open>res.json()\<close> exactly when
  the content-type header contains \<^verbatim>\<open>application/json\<close>, and otherwise the text of the body
  as a string.
\<close>

theorem apiFetch_response:
  assumes "fetch P (request_url base path)
             \<lparr>headers = [(''Content-Type'', ''application/json'')],
              http_method = opt_method options,
              body = map_option (serialize_body P) (opt_body options)\<rparr> w = (Inr res, w')"
  shows "apiFetch P base path options w =
           (if \<not> (200 \<le> status res \<and> status res \<le> 299)
            then (Inl (Error (''API error: '' @ show_nat (status res) @ '' '' @ statusText res)), w')
            else if \<exists>c pre suf. content_type res = Some c \<and> c = pre @ ''application/json'' @ suf
                 then (json_body res, w')
                 else (map_sum id JStr (text_body res), w'))
         \<and> read_nat (show_nat (status res)) = status res"
proof -
  let ?ct = "case content_type res of None \<Rightarrow> [] | Some c \<Rightarrow> c"
  have inc: "includes_str ?ct ''application/json''
             \<longleftrightarrow> (\<exists>c pre suf. content_type res = Some c \<and> c = pre @ ''application/json'' @ suf)"
  proof (cases "content_type res")
    case None
    then show ?thesis by simp
  next
    case (Some c)
    then show ?thesis by (simp add: includes_str_iff)
  qed
  show ?thesis
    using assms inc by (simp add: apiFetch_def ok_def Let_def read_show del: show_nat.simps)
qed

theorem apiFetch_response_witness:
  "apiFetch scripted ''http://h/api'' ''/sessions'' \<lparr>opt_method = ''GET'', opt_body = None\<rparr>
     (0, [(7, error_response 404 ''Not Found'')])
   = (Inl (Error ''API error: 404 Not Found''), (7, []))
   \<and> apiFetch scripted ''http://h/api'' ''/sessions'' \<lparr>opt_method = ''GET'', opt_body = None\<rparr>
     (0, [(7, json_response (JArr []))]) = (Inr (JArr []), (7, []))
   \<and> apiFetch scripted ''http://h/api'' ''/sessions'' \<lparr>opt_method = ''GET'', opt_body = None\<rparr>
     (0, [(7, text_response ''pong'')]) = (Inr (JStr ''pong''), (7, []))"
proof -
  let ?o = "\<lparr>opt_method = ''GET'', opt_body = None\<rparr>"
  have s404: "show_nat 404 = ''404''" by code_simp
  have a: "fetch scripted (request_url ''http://h/api'' ''/sessions'')
             \<lparr>headers = [(''Content-Type'', ''application/json'')],
              http_method = opt_method ?o,
              body = map_option (serialize_body scripted) (opt_body ?o)\<rparr>
             (0, [(7, Inr r)]) = (Inr r, (7, []))" for r
    by (simp add: scripted_def)
  have e1: "\<exists>c pre suf. Some ''application/json'' = Some c \<and> c = pre @ ''application/json'' @ suf"
    using includes_str_iff [of "''application/json''" "''application/json''"] by simp
  have e2: "\<not> (\<exists>c pre suf. Some ''text/plain'' = Some c \<and> c = pre @ ''application/json'' @ suf)"
    using includes_str_iff [of "''text/plain''" "''application/json''"] by simp
  have "apiFetch scripted ''http://h/api'' ''/sessions'' ?o (0, [(7, error_response 404 ''Not Found'')])
        = (Inl (Error ''API error: 404 Not Found''), (7, []))"
    unfolding error_response_def
    using apiFetch_response [OF a [of "\<lparr>status = 404, statusText = ''Not Found'',
        content_type = Some ''application/json'', json_body = Inr (JObj [(''detail'', JStr ''Not Found'')]),
        text_body = Inl (TypeError ''body stream already read'')\<rparr>"]] s404
    by (simp del: show_nat.simps)
  moreover have "apiFetch scripted ''http://h/api'' ''/sessions'' ?o (0, [(7, json_response (JArr []))])
        = (Inr (JArr []), (7, []))"
    unfolding json_response_def
    using apiFetch_response [OF a [of "\<lparr>status = 200, statusText = ''OK'',
        content_type = Some ''application/json'', json_body = Inr (JArr []),
        text_body = Inl (TypeError ''body stream already read'')\<rparr>"]] e1
    by (simp del: show_nat.simps)
  moreover have "apiFetch scripted ''http://h/api'' ''/sessions'' ?o (0, [(7, text_response ''pong'')])
        = (Inr (JStr ''pong''), (7, []))"
    unfolding text_response_def
    using apiFetch_response [OF a [of "\<lparr>status = 200, statusText = ''OK'',
        content_type = Some ''text/plain'', json_body = Inl (SyntaxError ''Unexpected token''),
        text_body = Inr ''pong''\<rparr>"]] e2
    by (simp del: show_nat.simps)
  ultimately show ?thesis by simp
qed

lemma request_url_slash: "request_url (b @ ''/'') p = b @ p"
  by (simp add: request_url_def replace_trailing_slash_def)

lemma request_url_plain: "b = [] \<or> last b \<noteq> CHR ''/'' \<Longrightarrow> request_url b p = b @ p"
  by (auto simp add: request_url_def replace_trailing_slash_def)

lemma apiFetch_slash:
  "b = [] \<or> last b \<noteq> CHR ''/'' \<Longrightarrow> apiFetch P (b @ ''/'') p opts w = apiFetch P b p opts w"
  by (simp only: apiFetch_def request_url_slash request_url_plain)

text \<open>
  C9. For a base URL \<open>b\<close> that does not itself end in a slash, the request URL built from
  \<open>b\<close> followed by one slash is the URL built from \<open>b\<close>, and each of the seven gateway
  operations behaves identically for the two spellings of the base.
\<close>

theorem base_url_trailing_slash:
  assumes "b = [] \<or> last b \<noteq> CHR ''/''"
  shows "request_url (b @ ''/'') p = request_url b p
       \<and> loadSessions P (b @ ''/'') w = loadSessions P b w
       \<and> createSession P (b @ ''/'') w = createSession P b w
       \<and> getMessages P (b @ ''/'') sid w = getMessages P b sid w
       \<and> sendMessage P (b @ ''/'') sid content w = sendMessage P b sid content w
       \<and> rollback P (b @ ''/'') sid i w = rollback P b sid i w
       \<and> deleteMessage P (b @ ''/'') sid i w = deleteMessage P b sid i w
       \<and> deleteSession P (b @ ''/'') sid w = deleteSession P b sid w"
proof -
  have "request_url (b @ ''/'') p = request_url b p"
    using assms by (simp only: request_url_slash request_url_plain)
  then show ?thesis
    using assms
    by (simp only: loadSessions_def createSession_def getMessages_def sendMessage_def
        rollback_def deleteMessage_def deleteSession_def apiFetch_slash simp_thms)
qed

theorem base_url_trailing_slash_witness:
  "request_url ''http://127.0.0.1:8000/api/'' ''/sessions'' = ''http://127.0.0.1:8000/api/sessions''
   \<and> request_url ''http://127.0.0.1:8000/api'' ''/sessions'' = ''http://127.0.0.1:8000/api/sessions''
   \<and> getMessages scripted ''http://127.0.0.1:8000/api/'' (JStr ''s1'') (0, [])
       = getMessages scripted ''http://127.0.0.1:8000/api'' (JStr ''s1'') (0, [])"
proof -
  have h: "''http://127.0.0.1:8000/api'' = [] \<or> last ''http://127.0.0.1:8000/api'' \<noteq> CHR ''/''"
    by simp
  have u: "request_url ''http://127.0.0.1:8000/api'' ''/sessions'' = ''http://127.0.0.1:8000/api/sessions''"
    by (simp add: request_url_def replace_trailing_slash_def)
  from base_url_trailing_slash [OF h, of "''/sessions''" scripted "(0, [])" "JStr ''s1''"] u
  show ?thesis by simp
qed

section \<open>Facts about the controller's state\<close>

lemma setError_sel [simp]:
  "apiBase (setError n m st) = apiBase st"
  "sessions (setError n m st) = sessions st"
  "currentSessionId (setError n m st) = currentSessionId st"
  "messages (setError n m st) = messages st"
  "newMessage (setError n m st) = newMessage st"
  "loading (setError n m st) = loading st"
  "error (setError n m st) = m"
  by (simp_all add: setError_def)

lemma fire_timeouts_sel [simp]:
  "apiBase (fire_timeouts n st) = apiBase st"
  "sessions (fire_timeouts n st) = sessions st"
  "currentSessionId (fire_timeouts n st) = currentSessionId st"
  "messages (fire_timeouts n st) = messages st"
  "newMessage (fire_timeouts n st) = newMessage st"
  "loading (fire_timeouts n st) = loading st"
  by (simp_all add: fire_timeouts_def)

lemma resume_sel [simp]:
  "apiBase (resume P w st) = apiBase st"
  "sessions (resume P w st) = sessions st"
  "currentSessionId (resume P w st) = currentSessionId st"
  "messages (resume P w st) = messages st"
  "newMessage (resume P w st) = newMessage st"
  "loading (resume P w st) = loading st"
  by (simp_all add: resume_def)

lemma msg_nonempty [simp]:
  "msg_load_sessions_failed \<noteq> []"
  "msg_create_session_failed \<noteq> []"
  "msg_load_messages_failed \<noteq> []"
  "msg_select_session_first \<noteq> []"
  "msg_send_failed \<noteq> []"
  "msg_rollback_failed \<noteq> []"
  "msg_delete_message_failed \<noteq> []"
  "msg_delete_session_failed \<noteq> []"
  by (simp_all add: msg_load_sessions_failed_def msg_create_session_failed_def
      msg_load_messages_failed_def msg_select_session_first_def msg_send_failed_def
      msg_rollback_failed_def msg_delete_message_failed_def msg_delete_session_failed_def)

section \<open>Running the scripted platform\<close>

lemma scripted_sel [simp]:
  "clock scripted (t, q) = t"
  "confirm scripted question w = (True, w)"
  "toString scripted (JStr s) = s"
  "encodeURIComponent scripted s = s"
  "toISOString scripted n = show_nat n"
  by (simp_all add: scripted_def)

lemma scripted_json [simp]:
  "apiFetch scripted b p opts (t, (d, json_response v) # q) = (Inr v, (t + d, q))"
  by (simp add: apiFetch_def scripted_def json_response_def ok_def)

lemma scripted_text [simp]:
  "apiFetch scripted b p opts (t, (d, text_response s) # q) = (Inr (JStr s), (t + d, q))"
  by (simp add: apiFetch_def scripted_def text_response_def ok_def)

lemma scripted_error [simp]:
  "\<not> (200 \<le> c \<and> c \<le> 299) \<Longrightarrow>
   apiFetch scripted b p opts (t, (d, error_response c r) # q)
     = (Inl (Error (''API error: '' @ show_nat c @ '' '' @ r)), (t + d, q))"
  by (simp add: apiFetch_def scripted_def error_response_def ok_def del: show_nat.simps)

lemma scripted_down [simp]:
  "apiFetch scripted b p opts (t, []) = (Inl (TypeError ''Failed to fetch''), (t, []))"
  by (simp add: apiFetch_def scripted_def)

lemma trim_hello: "trim '' hello '' = ''hello''"
  by code_simp

lemma chatting_sel [simp]:
  "apiBase chatting = ''http://127.0.0.1:8000/api''"
  "sessions chatting = [session ''s1'', session ''s2'']"
  "currentSessionId chatting = JStr ''s1''"
  "messages chatting = JArr [chat_message ''user'' ''u0'', chat_message ''assistant'' ''a0'',
                             chat_message ''user'' ''u1'', chat_message ''assistant'' ''a1'']"
  "newMessage chatting = '' hello ''"
  "loading chatting = False"
  "error chatting = []"
  "timeouts chatting = []"
  by (simp_all add: chatting_def initial_state_def)

section \<open>Sending a message\<close>

text \<open>
  C1. With a session selected, an array of messages \<open>ms\<close> and an input that is not empty
  after trimming: when the gateway's append call fails, \<^verbatim>\<open>sendMsg\<close> ends in the state it
  started from except that the input buffer is empty, the error slot holds the failure
  (with its expiry queued) and the busy flag is off. The message list is \<open>ms\<close> again: the
  optimistic message pushed at the start has been popped.
\<close>

theorem sendMsg_failure_undoes_push:
  assumes "messages st = JArr ms"
    and "truthy (currentSessionId st)"
    and "trim (newMessage st) \<noteq> []"
    and "sendMessage P (apiBase st) (currentSessionId st) (trim (newMessage st)) w = (Inl e, w1)"
  shows "sendMsg P st w =
           (None,
            st\<lparr>newMessage := [], loading := False, error := msg_send_failed @ message e,
               timeouts := filter (\<lambda>d. clock P w1 < d) (timeouts st) @ [clock P w1 + 5000]\<rparr>,
            w1)
         \<and> messages (fst (snd (sendMsg P st w))) = JArr ms"
  using assms
  by (simp add: sendMsg_def Let_def setError_def resume_def fire_timeouts_def)

theorem sendMsg_failure_undoes_push_witness:
  "sendMessage scripted (apiBase chatting) (currentSessionId chatting) (trim (newMessage chatting))
     (0, [(120, error_response 500 ''Internal Server Error'')])
     = (Inl (Error (''API error: '' @ show_nat 500 @ '' Internal Server Error'')), (120, []))
   \<and> messages (fst (snd (sendMsg scripted chatting (0, [(120, error_response 500 ''Internal Server Error'')]))))
     = JArr [chat_message ''user'' ''u0'', chat_message ''assistant'' ''a0'',
             chat_message ''user'' ''u1'', chat_message ''assistant'' ''a1'']
   \<and> error (fst (snd (sendMsg scripted chatting (0, [(120, error_response 500 ''Internal Server Error'')]))))
     = msg_send_failed @ ''API error: '' @ show_nat 500 @ '' Internal Server Error''
   \<and> timeouts (fst (snd (sendMsg scripted chatting (0, [(120, error_response 500 ''Internal Server Error'')]))))
     = [5120]"
proof -
  let ?w = "(0, [(120, error_response 500 ''Internal Server Error'')]) :: script"
  have h1: "messages chatting = JArr [chat_message ''user'' ''u0'', chat_message ''assistant'' ''a0'',
             chat_message ''user'' ''u1'', chat_message ''assistant'' ''a1'']" by simp
  have h2: "truthy (currentSessionId chatting)" by simp
  have h3: "trim (newMessage chatting) \<noteq> []" by (simp add: trim_hello)
  have h4: "sendMessage scripted (apiBase chatting) (currentSessionId chatting)
              (trim (newMessage chatting)) ?w
            = (Inl (Error (''API error: '' @ show_nat 500 @ '' Internal Server Error'')), (120, []))"
    by (simp add: sendMessage_def del: show_nat.simps)
  from sendMsg_failure_undoes_push [OF h1 h2 h3 h4] h4
  show ?thesis by (simp del: show_nat.simps)
qed

section \<open>Frame properties of the refresh operations\<close>

lemma loadMessagesList_frame [simp]:
  "apiBase (fst (loadMessagesList P st w)) = apiBase st"
  "sessions (fst (loadMessagesList P st w)) = sessions st"
  "currentSessionId (fst (loadMessagesList P st w)) = currentSessionId st"
  "newMessage (fst (loadMessagesList P st w)) = newMessage st"
  by (simp_all add: loadMessagesList_def Let_def split: prod.splits sum.splits)

lemma loadSessionsList_frame [simp]:
  "apiBase (fst (loadSessionsList P st w)) = apiBase st"
  "newMessage (fst (loadSessionsList P st w)) = newMessage st"
  by (simp_all add: loadSessionsList_def Let_def split: prod.splits sum.splits)

lemma loadSessionsList_selected [simp]:
  assumes "truthy (currentSessionId st)"
  shows "currentSessionId (fst (loadSessionsList P st w)) = currentSessionId st"
    and "messages (fst (loadSessionsList P st w)) = messages st"
  using assms by (simp_all add: loadSessionsList_def Let_def split: prod.splits sum.splits)

lemma store_messages_sel [simp]:
  "apiBase (store_messages data st) = apiBase st"
  "sessions (store_messages data st) = sessions st"
  "currentSessionId (store_messages data st) = currentSessionId st"
  "newMessage (store_messages data st) = newMessage st"
  by (simp_all add: store_messages_def)

lemma store_messages_shapeless:
  assumes "\<not> isArray data" and "\<not> has_field data ''messages''"
  shows "store_messages data st = st"
  using assms by (cases data) (simp_all add: store_messages_def and_prop_def split: option.splits)

lemma session_id [simp]: "get_prop (session ident) ''id'' = Inr (JStr ident)"
  by (simp add: session_def)

lemma initial_state_sel [simp]:
  "apiBase initial_state = ''http://127.0.0.1:8000/api''"
  "sessions initial_state = []"
  "currentSessionId initial_state = JNull"
  "messages initial_state = JArr []"
  "newMessage initial_state = []"
  "loading initial_state = False"
  "error initial_state = []"
  "timeouts initial_state = []"
  by (simp_all add: initial_state_def)

section \<open>Sending without a session or without text\<close>

text \<open>
  C4, as amended. \<^verbatim>\<open>sendMsg\<close> makes no gateway call and leaves the messages alone both when
  the trimmed input is empty and when no session is selected. With a session selected and
  an empty trimmed input it changes nothing at all, so the error slot keeps what it held.
  With no session selected it does surface an error: the slot receives the request to
  select or create a session first, with its expiry queued.
\<close>

theorem sendMsg_validation:
  "(truthy (currentSessionId st) \<and> trim (newMessage st) = [] \<longrightarrow> sendMsg P st w = (None, st, w))
   \<and> (\<not> truthy (currentSessionId st) \<longrightarrow>
        sendMsg P st w =
          (None, st\<lparr>error := msg_select_session_first,
                    timeouts := timeouts st @ [clock P w + 5000]\<rparr>, w))"
  by (simp add: sendMsg_def setError_def)

theorem sendMsg_validation_witness:
  "sendMsg scripted (chatting\<lparr>newMessage := ''  ''\<rparr>) (0, []) = (None, chatting\<lparr>newMessage := ''  ''\<rparr>, (0, []))
   \<and> sendMsg scripted initial_state (0, [])
       = (None, initial_state\<lparr>error := msg_select_session_first, timeouts := [5000]\<rparr>, (0, []))"
proof -
  have t: "trim ''  '' = []" by code_simp
  have a: "truthy (currentSessionId (chatting\<lparr>newMessage := ''  ''\<rparr>))
           \<and> trim (newMessage (chatting\<lparr>newMessage := ''  ''\<rparr>)) = []"
    using t by simp
  have b: "\<not> truthy (currentSessionId initial_state)" "timeouts initial_state = []"
    by (simp_all add: initial_state_def)
  from sendMsg_validation [of "chatting\<lparr>newMessage := ''  ''\<rparr>" scripted "(0, [])"] a
    sendMsg_validation [of initial_state scripted "(0, [])"] b
  show ?thesis by simp
qed

text \<open>
  C4 as stated fails: from the initial state (no session selected, empty error slot)
  \<^verbatim>\<open>sendMsg\<close> leaves a message in the error slot.
\<close>

theorem sendMsg_without_session_surfaces_error:
  "currentSessionId initial_state = JNull
   \<and> error initial_state = []
   \<and> error (fst (snd (sendMsg scripted initial_state (0, [])))) = msg_select_session_first
   \<and> error (fst (snd (sendMsg scripted initial_state (0, [])))) \<noteq> []"
  by (simp add: sendMsg_def initial_state_def setError_def)

section \<open>Answers of an unexpected shape\<close>

text \<open>
  C10. When the gateway call succeeds with a value that is not an array, \<^verbatim>\<open>loadSessionsList\<close>
  stores the empty session list (and makes no further call) and \<^verbatim>\<open>loadMessagesList\<close> stores
  the empty message list. When the answer is neither an array nor an object with a
  \<^verbatim>\<open>messages\<close> field, \<^verbatim>\<open>rollbackTo\<close> and \<^verbatim>\<open>deleteMsg\<close> leave the message list as it was, and
  \<^verbatim>\<open>sendMsg\<close> returns normally with the message list still ending in the optimistic
  message. Both refresh operations are total in the model: their handlers catch every
  exception that their bodies can raise.
\<close>

theorem malformed_success:
  "(loadSessions P (apiBase st) w = (Inr data, w1) \<and> \<not> isArray data \<longrightarrow>
      sessions (fst (loadSessionsList P st w)) = [] \<and> snd (loadSessionsList P st w) = w1)
   \<and> (truthy (currentSessionId st)
        \<and> getMessages P (apiBase st) (currentSessionId st) w = (Inr data, w1) \<and> \<not> isArray data \<longrightarrow>
      messages (fst (loadMessagesList P st w)) = JArr [])
   \<and> (messages st = JArr ms \<and> truthy (currentSessionId st) \<and> trim (newMessage st) \<noteq> []
        \<and> sendMessage P (apiBase st) (currentSessionId st) (trim (newMessage st)) w = (Inr data, w1)
        \<and> \<not> isArray data \<and> \<not> has_field data ''messages'' \<longrightarrow>
      fst (sendMsg P st w) = None
      \<and> messages (fst (snd (sendMsg P st w))) =
          JArr (ms @ [JObj [(''role'', JStr ''user''), (''content'', JStr (trim (newMessage st))),
                            (''created_at'', JStr (toISOString P (clock P w)))]]))
   \<and> (truthy (currentSessionId st)
        \<and> rollback P (apiBase st) (currentSessionId st) i w = (Inr data, w1)
        \<and> \<not> isArray data \<and> \<not> has_field data ''messages'' \<longrightarrow>
      messages (fst (rollbackTo P i st w)) = messages st)
   \<and> (truthy (currentSessionId st)
        \<and> confirm P (confirm_delete_message_pre @ show_int (i + 1) @ confirm_delete_message_post) w
            = (True, w0)
        \<and> deleteMessage P (apiBase st) (currentSessionId st) i w0 = (Inr data, w1)
        \<and> \<not> isArray data \<and> \<not> has_field data ''messages'' \<longrightarrow>
      messages (fst (deleteMsg P i st w)) = messages st)"
proof -
  have a: "sessions (fst (loadSessionsList P st w)) = [] \<and> snd (loadSessionsList P st w) = w1"
    if "loadSessions P (apiBase st) w = (Inr data, w1)" and "\<not> isArray data"
    using that by (cases data) (simp_all add: loadSessionsList_def Let_def)
  have b: "messages (fst (loadMessagesList P st w)) = JArr []"
    if "truthy (currentSessionId st)"
      and "getMessages P (apiBase st) (currentSessionId st) w = (Inr data, w1)" and "\<not> isArray data"
    using that by (simp add: loadMessagesList_def Let_def)
  have c: "fst (sendMsg P st w) = None
      \<and> messages (fst (snd (sendMsg P st w))) =
          JArr (ms @ [JObj [(''role'', JStr ''user''), (''content'', JStr (trim (newMessage st))),
                            (''created_at'', JStr (toISOString P (clock P w)))]])"
    if "messages st = JArr ms" and "truthy (currentSessionId st)" and "trim (newMessage st) \<noteq> []"
      and "sendMessage P (apiBase st) (currentSessionId st) (trim (newMessage st)) w = (Inr data, w1)"
      and "\<not> isArray data" and "\<not> has_field data ''messages''"
    using that
    by (simp add: sendMsg_def Let_def store_messages_shapeless case_prod_unfold)
  have d: "messages (fst (rollbackTo P i st w)) = messages st"
    if "truthy (currentSessionId st)"
      and "rollback P (apiBase st) (currentSessionId st) i w = (Inr data, w1)"
      and "\<not> isArray data" and "\<not> has_field data ''messages''"
    using that
    by (simp add: rollbackTo_def Let_def store_messages_shapeless case_prod_unfold)
  have e: "messages (fst (deleteMsg P i st w)) = messages st"
    if "truthy (currentSessionId st)"
      and "confirm P (confirm_delete_message_pre @ show_int (i + 1) @ confirm_delete_message_post) w
            = (True, w0)"
      and "deleteMessage P (apiBase st) (currentSessionId st) i w0 = (Inr data, w1)"
      and "\<not> isArray data" and "\<not> has_field data ''messages''"
    using that
    by (simp add: deleteMsg_def Let_def store_messages_shapeless case_prod_unfold)
  from a b c d e show ?thesis by blast
qed


theorem malformed_success_witness:
  "sessions (fst (loadSessionsList scripted chatting (0, [(5, text_response ''pong'')]))) = []
   \<and> messages (fst (loadMessagesList scripted chatting (0, [(5, text_response ''pong'')]))) = JArr []
   \<and> messages (fst (snd (sendMsg scripted chatting (0, [(5, text_response ''pong'')]))))
       = JArr [chat_message ''user'' ''u0'', chat_message ''assistant'' ''a0'',
               chat_message ''user'' ''u1'', chat_message ''assistant'' ''a1'',
               JObj [(''role'', JStr ''user''), (''content'', JStr ''hello''),
                     (''created_at'', JStr (show_nat 0))]]
   \<and> messages (fst (rollbackTo scripted 2 chatting (0, [(5, text_response ''pong'')])))
       = messages chatting
   \<and> messages (fst (deleteMsg scripted 2 chatting (0, [(5, text_response ''pong'')])))
       = messages chatting"
proof -
  let ?w = "(0, [(5, text_response ''pong'')]) :: script"
  let ?w1 = "(5, []) :: script"
  have shape: "\<not> isArray (JStr ''pong'')" "\<not> has_field (JStr ''pong'') ''messages''"
    by simp_all
  have sel: "truthy (currentSessionId chatting)" by simp
  have a: "loadSessions scripted (apiBase chatting) ?w = (Inr (JStr ''pong''), ?w1)"
    by (simp add: loadSessions_def)
  have b: "getMessages scripted (apiBase chatting) (currentSessionId chatting) ?w
           = (Inr (JStr ''pong''), ?w1)"
    by (simp add: getMessages_def)
  have c: "sendMessage scripted (apiBase chatting) (currentSessionId chatting)
             (trim (newMessage chatting)) ?w = (Inr (JStr ''pong''), ?w1)"
    "trim (newMessage chatting) \<noteq> []"
    by (simp_all add: sendMessage_def trim_hello)
  have d: "rollback scripted (apiBase chatting) (currentSessionId chatting) 2 ?w
           = (Inr (JStr ''pong''), ?w1)"
    by (simp add: rollback_def)
  have e: "confirm scripted (confirm_delete_message_pre @ show_int (2 + 1) @ confirm_delete_message_post) ?w
           = (True, ?w)"
    "deleteMessage scripted (apiBase chatting) (currentSessionId chatting) 2 ?w
           = (Inr (JStr ''pong''), ?w1)"
    by (simp_all add: deleteMessage_def del: show_nat.simps)
  have m: "messages chatting = JArr [chat_message ''user'' ''u0'', chat_message ''assistant'' ''a0'',
               chat_message ''user'' ''u1'', chat_message ''assistant'' ''a1'']"
    by simp
  note inst = malformed_success [where P = scripted and st = chatting and w = ?w
      and data = "JStr ''pong''" and ?w1.0 = ?w1 and ?w0.0 = ?w and i = 2
      and ms = "[chat_message ''user'' ''u0'', chat_message ''assistant'' ''a0'',
               chat_message ''user'' ''u1'', chat_message ''assistant'' ''a1'']"]
  from inst shape sel a b c d e m show ?thesis
    by (simp add: trim_hello del: show_nat.simps)
qed

section \<open>Refreshing the session list\<close>

text \<open>
  C6. When the gateway returns the array \<open>xs\<close>, \<^verbatim>\<open>loadSessionsList\<close> makes \<open>xs\<close> the local
  session list, as it is. When moreover no session was selected, \<open>xs\<close> is not empty and
  its first session has the identifier \<open>v\<close>, then \<open>v\<close> becomes the selected session; and
  if \<open>v\<close> is a proper identifier (truthy) and the fetch of its messages succeeds with the
  array \<open>ms\<close>, then \<open>ms\<close> is the message list at the end of the same transition.
\<close>

theorem refresh_session_list:
  "(loadSessions P (apiBase st) w = (Inr (JArr xs), w1) \<longrightarrow>
      sessions (fst (loadSessionsList P st w)) = xs)
   \<and> (\<not> truthy (currentSessionId st)
        \<and> loadSessions P (apiBase st) w = (Inr (JArr (s # rest)), w1)
        \<and> get_prop s ''id'' = Inr v \<and> truthy v
        \<and> getMessages P (apiBase st) v w1 = (Inr (JArr ms), w2) \<longrightarrow>
      snd (loadSessionsList P st w) = w2
      \<and> sessions (fst (loadSessionsList P st w)) = s # rest
      \<and> currentSessionId (fst (loadSessionsList P st w)) = v
      \<and> messages (fst (loadSessionsList P st w)) = JArr ms)
   \<and> (\<not> truthy (currentSessionId st)
        \<and> loadSessions P (apiBase st) w = (Inr (JArr (s # rest)), w1)
        \<and> get_prop s ''id'' = Inr v \<longrightarrow>
      currentSessionId (fst (loadSessionsList P st w)) = v)"
proof -
  have c: "currentSessionId (fst (loadSessionsList P st w)) = v"
    if "\<not> truthy (currentSessionId st)"
      and "loadSessions P (apiBase st) w = (Inr (JArr (s # rest)), w1)"
      and "get_prop s ''id'' = Inr v"
    using that by (simp add: loadSessionsList_def Let_def)
  have a: "sessions (fst (loadSessionsList P st w)) = xs"
    if "loadSessions P (apiBase st) w = (Inr (JArr xs), w1)"
    using that by (simp add: loadSessionsList_def Let_def split: sum.splits)
  have b: "snd (loadSessionsList P st w) = w2
      \<and> sessions (fst (loadSessionsList P st w)) = s # rest
      \<and> currentSessionId (fst (loadSessionsList P st w)) = v
      \<and> messages (fst (loadSessionsList P st w)) = JArr ms"
    if "\<not> truthy (currentSessionId st)"
      and "loadSessions P (apiBase st) w = (Inr (JArr (s # rest)), w1)"
      and "get_prop s ''id'' = Inr v" and "truthy v"
      and "getMessages P (apiBase st) v w1 = (Inr (JArr ms), w2)"
    using that by (simp add: loadSessionsList_def loadMessagesList_def Let_def)
  from a b c show ?thesis by blast
qed

theorem refresh_session_list_witness:
  "sessions (fst (loadSessionsList scripted initial_state
      (0, [(5, json_response (JArr [session ''s1'', session ''s2''])),
           (7, json_response (JArr [chat_message ''user'' ''u0'']))])))
     = [session ''s1'', session ''s2'']
   \<and> currentSessionId (fst (loadSessionsList scripted initial_state
      (0, [(5, json_response (JArr [session ''s1'', session ''s2''])),
           (7, json_response (JArr [chat_message ''user'' ''u0'']))]))) = JStr ''s1''
   \<and> messages (fst (loadSessionsList scripted initial_state
      (0, [(5, json_response (JArr [session ''s1'', session ''s2''])),
           (7, json_response (JArr [chat_message ''user'' ''u0'']))])))
     = JArr [chat_message ''user'' ''u0'']
   \<and> snd (loadSessionsList scripted initial_state
      (0, [(5, json_response (JArr [session ''s1'', session ''s2''])),
           (7, json_response (JArr [chat_message ''user'' ''u0'']))])) = (12, [])"
proof -
  let ?w = "(0, [(5, json_response (JArr [session ''s1'', session ''s2''])),
                 (7, json_response (JArr [chat_message ''user'' ''u0'']))]) :: script"
  let ?w1 = "(5, [(7, json_response (JArr [chat_message ''user'' ''u0'']))]) :: script"
  have a: "\<not> truthy (currentSessionId initial_state)" by simp
  have b: "loadSessions scripted (apiBase initial_state) ?w
           = (Inr (JArr (session ''s1'' # [session ''s2''])), ?w1)"
    by (simp add: loadSessions_def)
  have c: "get_prop (session ''s1'') ''id'' = Inr (JStr ''s1'')" "truthy (JStr ''s1'')"
    by simp_all
  have d: "getMessages scripted (apiBase initial_state) (JStr ''s1'') ?w1
           = (Inr (JArr [chat_message ''user'' ''u0'']), (12, []))"
    by (simp add: getMessages_def)
  from refresh_session_list [where P = scripted and st = initial_state and w = ?w
      and xs = "[session ''s1'', session ''s2'']" and s = "session ''s1''"
      and rest = "[session ''s2'']" and v = "JStr ''s1''" and ?w1.0 = ?w1
      and ms = "[chat_message ''user'' ''u0'']" and ?w2.0 = "(12, [])"] a b c d
  show ?thesis by simp
qed

section \<open>Deleting a session\<close>

text \<open>
  C5. Deleting the selected session \<open>sid\<close>, confirmed by the user and accepted by the gateway:
  when the refreshed list is \<open>s # rest\<close> and \<open>s\<close> has the identifier \<open>v\<close>, the pointer ends as
  \<open>v\<close>, and the messages fetched for \<open>v\<close> end as the local message list; when the refreshed
  list is empty, the pointer ends as \<^verbatim>\<open>null\<close> and the message list is empty. Deleting a
  session other than the selected one leaves the pointer as it was, whatever the user
  and the gateway answer.
\<close>

theorem delete_session_cascade:
  "(truthy sid \<and> currentSessionId st = sid
      \<and> confirm P (confirm_delete_session_pre @ toString P sid @ confirm_delete_session_post) w
          = (True, w0)
      \<and> deleteSession P (apiBase st) sid w0 = (Inr r, w1)
      \<and> loadSessions P (apiBase st) w1 = (Inr (JArr (s # rest)), w2)
      \<and> get_prop s ''id'' = Inr v \<longrightarrow>
        sessions (fst (deleteSess P sid st w)) = s # rest
        \<and> currentSessionId (fst (deleteSess P sid st w)) = v)
   \<and> (truthy sid \<and> currentSessionId st = sid
      \<and> confirm P (confirm_delete_session_pre @ toString P sid @ confirm_delete_session_post) w
          = (True, w0)
      \<and> deleteSession P (apiBase st) sid w0 = (Inr r, w1)
      \<and> loadSessions P (apiBase st) w1 = (Inr (JArr (s # rest)), w2)
      \<and> get_prop s ''id'' = Inr v \<and> truthy v
      \<and> getMessages P (apiBase st) v w2 = (Inr (JArr ms), w3) \<longrightarrow>
        snd (deleteSess P sid st w) = w3
        \<and> messages (fst (deleteSess P sid st w)) = JArr ms)
   \<and> (truthy sid \<and> currentSessionId st = sid
      \<and> confirm P (confirm_delete_session_pre @ toString P sid @ confirm_delete_session_post) w
          = (True, w0)
      \<and> deleteSession P (apiBase st) sid w0 = (Inr r, w1)
      \<and> loadSessions P (apiBase st) w1 = (Inr (JArr []), w2) \<longrightarrow>
        snd (deleteSess P sid st w) = w2
        \<and> sessions (fst (deleteSess P sid st w)) = []
        \<and> currentSessionId (fst (deleteSess P sid st w)) = JNull
        \<and> messages (fst (deleteSess P sid st w)) = JArr [])
   \<and> (truthy (currentSessionId st) \<and> currentSessionId st \<noteq> sid \<longrightarrow>
        currentSessionId (fst (deleteSess P sid st w)) = currentSessionId st)"
proof -
  let ?q = "confirm_delete_session_pre @ toString P sid @ confirm_delete_session_post"
  have a: "sessions (fst (deleteSess P sid st w)) = s # rest
        \<and> currentSessionId (fst (deleteSess P sid st w)) = v"
    if "truthy sid" and "currentSessionId st = sid" and "confirm P ?q w = (True, w0)"
      and "deleteSession P (apiBase st) sid w0 = (Inr r, w1)"
      and "loadSessions P (apiBase st) w1 = (Inr (JArr (s # rest)), w2)"
      and "get_prop s ''id'' = Inr v"
    using that
    by (simp add: deleteSess_def loadSessionsList_def Let_def strict_eq_def case_prod_unfold)
  have b: "snd (deleteSess P sid st w) = w3 \<and> messages (fst (deleteSess P sid st w)) = JArr ms"
    if "truthy sid" and "currentSessionId st = sid" and "confirm P ?q w = (True, w0)"
      and "deleteSession P (apiBase st) sid w0 = (Inr r, w1)"
      and "loadSessions P (apiBase st) w1 = (Inr (JArr (s # rest)), w2)"
      and "get_prop s ''id'' = Inr v" and "truthy v"
      and "getMessages P (apiBase st) v w2 = (Inr (JArr ms), w3)"
    using that
    by (simp add: deleteSess_def loadSessionsList_def loadMessagesList_def Let_def strict_eq_def)
  have c: "snd (deleteSess P sid st w) = w2
        \<and> sessions (fst (deleteSess P sid st w)) = []
        \<and> currentSessionId (fst (deleteSess P sid st w)) = JNull
        \<and> messages (fst (deleteSess P sid st w)) = JArr []"
    if "truthy sid" and "currentSessionId st = sid" and "confirm P ?q w = (True, w0)"
      and "deleteSession P (apiBase st) sid w0 = (Inr r, w1)"
      and "loadSessions P (apiBase st) w1 = (Inr (JArr []), w2)"
    using that
    by (simp add: deleteSess_def loadSessionsList_def Let_def strict_eq_def)
  have d: "currentSessionId (fst (deleteSess P sid st w)) = currentSessionId st"
    if sel: "truthy (currentSessionId st)" and ne: "currentSessionId st \<noteq> sid"
  proof -
    obtain answer w0 where q: "confirm P ?q w = (answer, w0)" by (cases "confirm P ?q w")
    let ?st1 = "(setError (clock P w0) [] st)\<lparr>loading := True\<rparr>"
    obtain res w1 where del: "deleteSession P (apiBase st) sid w0 = (res, w1)"
      by (cases "deleteSession P (apiBase st) sid w0")
    have keep: "currentSessionId (fst (loadSessionsList P (resume P w1 ?st1) w1)) = currentSessionId st"
      using sel by simp
    show ?thesis
      using q del keep ne
      by (cases res; cases answer)
        (simp_all add: deleteSess_def Let_def strict_eq_def case_prod_unfold)
  qed
  from a b c d show ?thesis by blast
qed


theorem delete_session_cascade_witness:
  "sessions (fst (deleteSess scripted (JStr ''s1'') chatting
      (0, [(5, json_response (JObj [(''message'', JStr ''Session s1 deleted'')])),
           (5, json_response (JArr [session ''s2''])),
           (5, json_response (JArr [chat_message ''user'' ''x'']))]))) = [session ''s2'']
   \<and> currentSessionId (fst (deleteSess scripted (JStr ''s1'') chatting
      (0, [(5, json_response (JObj [(''message'', JStr ''Session s1 deleted'')])),
           (5, json_response (JArr [session ''s2''])),
           (5, json_response (JArr [chat_message ''user'' ''x'']))]))) = JStr ''s2''
   \<and> messages (fst (deleteSess scripted (JStr ''s1'') chatting
      (0, [(5, json_response (JObj [(''message'', JStr ''Session s1 deleted'')])),
           (5, json_response (JArr [session ''s2''])),
           (5, json_response (JArr [chat_message ''user'' ''x'']))])))
       = JArr [chat_message ''user'' ''x'']
   \<and> currentSessionId (fst (deleteSess scripted (JStr ''s1'') chatting
      (0, [(5, json_response (JObj [(''message'', JStr ''Session s1 deleted'')])),
           (5, json_response (JArr []))]))) = JNull
   \<and> messages (fst (deleteSess scripted (JStr ''s1'') chatting
      (0, [(5, json_response (JObj [(''message'', JStr ''Session s1 deleted'')])),
           (5, json_response (JArr []))]))) = JArr []
   \<and> currentSessionId (fst (deleteSess scripted (JStr ''s2'') chatting (0, []))) = JStr ''s1''"
proof -
  let ?r = "JObj [(''message'', JStr ''Session s1 deleted'')]"
  let ?q = "confirm_delete_session_pre @ toString scripted (JStr ''s1'') @ confirm_delete_session_post"
  let ?wc = "(10, [(5, json_response (JArr [chat_message ''user'' ''x'']))]) :: script"
  let ?wb = "(5, [(5, json_response (JArr [session ''s2''])),
                  (5, json_response (JArr [chat_message ''user'' ''x'']))]) :: script"
  let ?wa = "(0, [(5, json_response ?r), (5, json_response (JArr [session ''s2''])),
                  (5, json_response (JArr [chat_message ''user'' ''x'']))]) :: script"
  let ?vb = "(5, [(5, json_response (JArr []))]) :: script"
  let ?va = "(0, [(5, json_response ?r), (5, json_response (JArr []))]) :: script"
  have sel: "truthy (JStr ''s1'')" "currentSessionId chatting = JStr ''s1''"
    "truthy (currentSessionId chatting)" "currentSessionId chatting \<noteq> JStr ''s2''"
    by simp_all
  have a1: "confirm scripted ?q ?wa = (True, ?wa)" by simp
  have a2: "deleteSession scripted (apiBase chatting) (JStr ''s1'') ?wa = (Inr ?r, ?wb)"
    by (simp add: deleteSession_def)
  have a3: "loadSessions scripted (apiBase chatting) ?wb = (Inr (JArr (session ''s2'' # [])), ?wc)"
    by (simp add: loadSessions_def)
  have a4: "get_prop (session ''s2'') ''id'' = Inr (JStr ''s2'')" "truthy (JStr ''s2'')"
    by simp_all
  have a5: "getMessages scripted (apiBase chatting) (JStr ''s2'') ?wc
            = (Inr (JArr [chat_message ''user'' ''x'']), (15, []))"
    by (simp add: getMessages_def)
  have b1: "confirm scripted ?q ?va = (True, ?va)" by simp
  have b2: "deleteSession scripted (apiBase chatting) (JStr ''s1'') ?va = (Inr ?r, ?vb)"
    by (simp add: deleteSession_def)
  have b3: "loadSessions scripted (apiBase chatting) ?vb = (Inr (JArr []), (10, []))"
    by (simp add: loadSessions_def)
  note first = delete_session_cascade [where P = scripted and st = chatting and sid = "JStr ''s1''"
      and w = ?wa and ?w0.0 = ?wa and r = ?r and ?w1.0 = ?wb and s = "session ''s2''" and rest = "[]"
      and ?w2.0 = ?wc and v = "JStr ''s2''" and ms = "[chat_message ''user'' ''x'']"
      and ?w3.0 = "(15, [])"]
  note none = delete_session_cascade [where P = scripted and st = chatting and sid = "JStr ''s1''"
      and w = ?va and ?w0.0 = ?va and r = ?r and ?w1.0 = ?vb and ?w2.0 = "(10, [])"]
  note other = delete_session_cascade [where P = scripted and st = chatting and sid = "JStr ''s2''"
      and w = "(0, [])"]
  have "sessions (fst (deleteSess scripted (JStr ''s1'') chatting ?wa)) = [session ''s2'']
      \<and> currentSessionId (fst (deleteSess scripted (JStr ''s1'') chatting ?wa)) = JStr ''s2''
      \<and> messages (fst (deleteSess scripted (JStr ''s1'') chatting ?wa)) = JArr [chat_message ''user'' ''x'']"
    using first sel a1 a2 a3 a4 a5 by simp
  moreover have "currentSessionId (fst (deleteSess scripted (JStr ''s1'') chatting ?va)) = JNull
      \<and> messages (fst (deleteSess scripted (JStr ''s1'') chatting ?va)) = JArr []"
    using none sel b1 b2 b3 by simp
  moreover have "currentSessionId (fst (deleteSess scripted (JStr ''s2'') chatting (0, []))) = JStr ''s1''"
    using other sel by simp
  ultimately show ?thesis by simp
qed

section \<open>Transitions whose gateway call is rejected\<close>

text \<open>
  The state in which each operation ends when its own gateway call is rejected: the
  handler has stored the failure in the error slot, and nothing else has been assigned.
\<close>

lemma loadSessionsList_rejected:
  "loadSessions P (apiBase st) w = (Inl e, w1) \<Longrightarrow>
   loadSessionsList P st w =
     (setError (clock P w1) (msg_load_sessions_failed @ message e)
        (resume P w1 (setError (clock P w) [] st)), w1)"
  by (simp add: loadSessionsList_def Let_def)

lemma loadMessagesList_rejected:
  "truthy (currentSessionId st) \<Longrightarrow>
   getMessages P (apiBase st) (currentSessionId st) w = (Inl e, w1) \<Longrightarrow>
   loadMessagesList P st w =
     ((setError (clock P w1) (msg_load_messages_failed @ message e)
         (resume P w1 ((setError (clock P w) [] st)\<lparr>loading := True\<rparr>)))\<lparr>loading := False\<rparr>, w1)"
  by (simp add: loadMessagesList_def Let_def)

lemma createNewSession_rejected:
  "createSession P (apiBase st) w = (Inl e, w1) \<Longrightarrow>
   createNewSession P st w =
     ((setError (clock P w1) (msg_create_session_failed @ message e)
         (resume P w1 ((setError (clock P w) [] st)\<lparr>loading := True\<rparr>)))\<lparr>loading := False\<rparr>, w1)"
  by (simp add: createNewSession_def Let_def)

lemma sendMsg_rejected:
  "messages st = JArr ms \<Longrightarrow> truthy (currentSessionId st) \<Longrightarrow> trim (newMessage st) \<noteq> [] \<Longrightarrow>
   sendMessage P (apiBase st) (currentSessionId st) (trim (newMessage st)) w = (Inl e, w1) \<Longrightarrow>
   sendMsg P st w =
     (None,
      (setError (clock P w1) (msg_send_failed @ message e)
         (resume P w1 ((setError (clock P w) [] st)\<lparr>loading := True, newMessage := []\<rparr>)))
        \<lparr>loading := False\<rparr>, w1)"
  by (simp add: sendMsg_def Let_def setError_def resume_def fire_timeouts_def)

lemma rollbackTo_rejected:
  "truthy (currentSessionId st) \<Longrightarrow>
   rollback P (apiBase st) (currentSessionId st) i w = (Inl e, w1) \<Longrightarrow>
   rollbackTo P i st w =
     ((setError (clock P w1) (msg_rollback_failed @ message e)
         (resume P w1 ((setError (clock P w) [] st)\<lparr>loading := True\<rparr>)))\<lparr>loading := False\<rparr>, w1)"
  by (simp add: rollbackTo_def Let_def)

lemma deleteMsg_rejected:
  "truthy (currentSessionId st) \<Longrightarrow>
   confirm P (confirm_delete_message_pre @ show_int (i + 1) @ confirm_delete_message_post) w
     = (True, w0) \<Longrightarrow>
   deleteMessage P (apiBase st) (currentSessionId st) i w0 = (Inl e, w1) \<Longrightarrow>
   deleteMsg P i st w =
     ((setError (clock P w1) (msg_delete_message_failed @ message e)
         (resume P w1 ((setError (clock P w0) [] st)\<lparr>loading := True\<rparr>)))\<lparr>loading := False\<rparr>, w1)"
  by (simp add: deleteMsg_def Let_def)

lemma deleteSess_rejected:
  "confirm P (confirm_delete_session_pre @ toString P sid @ confirm_delete_session_post) w
     = (True, w0) \<Longrightarrow>
   deleteSession P (apiBase st) sid w0 = (Inl e, w1) \<Longrightarrow>
   deleteSess P sid st w =
     ((setError (clock P w1) (msg_delete_session_failed @ message e)
         (resume P w1 ((setError (clock P w0) [] st)\<lparr>loading := True\<rparr>)))\<lparr>loading := False\<rparr>, w1)"
  by (simp add: deleteSess_def Let_def)

lemma setError_timeouts [simp]:
  "timeouts (setError n m st) = (if m \<noteq> [] then timeouts st @ [n + 5000] else timeouts st)"
  by (simp add: setError_def)

lemma fire_timeouts_error [simp]:
  "error (fire_timeouts n st) = (if filter (\<lambda>d. d \<le> n) (timeouts st) = [] then error st else [])"
  by (simp add: fire_timeouts_def)

lemma fire_timeouts_timeouts [simp]:
  "timeouts (fire_timeouts n st) = filter (\<lambda>d. n < d) (timeouts st)"
  by (simp add: fire_timeouts_def)

lemma resume_timeouts [simp]:
  "timeouts (resume P w st) = filter (\<lambda>d. clock P w < d) (timeouts st)"
  by (simp add: resume_def)

section \<open>The selected-session pointer\<close>

lemma selectSession_frame [simp]:
  "sessions (fst (selectSession P ident st w)) = sessions st"
  by (simp add: selectSession_def)

lemma selectSession_pointer:
  "truthy ident \<Longrightarrow> currentSessionId (fst (selectSession P ident st w)) = ident"
  by (simp add: selectSession_def strict_eq_def)

lemma loadSessionsList_sessions:
  "sessions (fst (loadSessionsList P st w))
     = refreshed_sessions (sessions st) (fst (loadSessions P (apiBase st) w))"
proof (cases "loadSessions P (apiBase st) w")
  case (Pair a w1)
  show ?thesis
  proof (cases a)
    case (Inl e)
    with Pair show ?thesis by (simp add: loadSessionsList_rejected refreshed_sessions_def)
  next
    case (Inr data)
    with Pair show ?thesis
      by (cases data)
        (simp_all add: loadSessionsList_def Let_def refreshed_sessions_def split: sum.splits)
  qed
qed

lemma loadSessionsList_pointer:
  "currentSessionId (fst (loadSessionsList P st w))
     = refreshed_pointer (currentSessionId st) (fst (loadSessions P (apiBase st) w))"
proof (cases "truthy (currentSessionId st)")
  case True
  then show ?thesis by (simp add: refreshed_pointer_def)
next
  case False
  show ?thesis
  proof (cases "loadSessions P (apiBase st) w")
    case (Pair a w1)
    show ?thesis
    proof (cases a)
      case (Inl e)
      with Pair False show ?thesis by (simp add: loadSessionsList_rejected refreshed_pointer_def)
    next
      case (Inr data)
      show ?thesis
      proof (cases data)
        case (JArr xs)
        with Pair Inr False show ?thesis
          by (cases xs)
            (simp_all add: loadSessionsList_def Let_def refreshed_pointer_def split: sum.splits)
      qed (use Pair Inr False in \<open>simp_all add: loadSessionsList_def Let_def refreshed_pointer_def\<close>)
    qed
  qed
qed

lemma sendMsg_pointer: "currentSessionId (fst (snd (sendMsg P st w))) = currentSessionId st"
proof (cases "truthy (currentSessionId st) \<and> trim (newMessage st) \<noteq> []")
  case False
  then show ?thesis by (auto simp add: sendMsg_def)
next
  case True
  show ?thesis
  proof (cases "messages st")
    case (JArr ms)
    obtain a w1 where s: "sendMessage P (apiBase st) (currentSessionId st) (trim (newMessage st)) w = (a, w1)"
      by (cases "sendMessage P (apiBase st) (currentSessionId st) (trim (newMessage st)) w")
    show ?thesis
      using True JArr s
      by (cases a) (simp_all add: sendMsg_def Let_def case_prod_unfold)
  qed (use True in \<open>simp_all add: sendMsg_def Let_def\<close>)
qed

lemma rollbackTo_pointer: "currentSessionId (fst (rollbackTo P i st w)) = currentSessionId st"
proof (cases "truthy (currentSessionId st)")
  case False
  then show ?thesis by (simp add: rollbackTo_def)
next
  case True
  obtain a w1 where s: "rollback P (apiBase st) (currentSessionId st) i w = (a, w1)"
    by (cases "rollback P (apiBase st) (currentSessionId st) i w")
  show ?thesis
    using True s by (cases a) (simp_all add: rollbackTo_def Let_def case_prod_unfold)
qed

lemma deleteMsg_pointer: "currentSessionId (fst (deleteMsg P i st w)) = currentSessionId st"
proof (cases "truthy (currentSessionId st)")
  case False
  then show ?thesis by (simp add: deleteMsg_def)
next
  case True
  let ?q = "confirm_delete_message_pre @ show_int (i + 1) @ confirm_delete_message_post"
  obtain answer w0 where q: "confirm P ?q w = (answer, w0)" by (cases "confirm P ?q w")
  obtain a w1 where s: "deleteMessage P (apiBase st) (currentSessionId st) i w0 = (a, w1)"
    by (cases "deleteMessage P (apiBase st) (currentSessionId st) i w0")
  show ?thesis
    using True q s by (cases a; cases answer) (simp_all add: deleteMsg_def Let_def case_prod_unfold)
qed

lemma selectSession_pointer_all:
  "currentSessionId (fst (selectSession P ident st w))
     = (if truthy ident then ident else currentSessionId st)"
  by (auto simp add: selectSession_def strict_eq_def)

lemma createNewSession_pointer:
  "currentSessionId (fst (createNewSession P st w))
     = (case createSession P (apiBase st) w of
          (Inl e, w1) \<Rightarrow> currentSessionId st
        | (Inr r, w1) \<Rightarrow>
            refreshed_pointer (currentSessionId st) (fst (loadSessions P (apiBase st) w1)))"
proof (cases "createSession P (apiBase st) w")
  case (Pair a w1)
  then show ?thesis
    by (cases a)
      (simp_all add: createNewSession_def Let_def case_prod_unfold loadSessionsList_pointer)
qed

lemma deleteSess_pointer:
  "currentSessionId (fst (deleteSess P sid st w))
     = (case confirm P (confirm_delete_session_pre @ toString P sid @ confirm_delete_session_post) w of
          (answer, w0) \<Rightarrow>
            if \<not> answer then currentSessionId st
            else
              (case deleteSession P (apiBase st) sid w0 of
                 (Inl e, w1) \<Rightarrow> currentSessionId st
               | (Inr r, w1) \<Rightarrow>
                   (let reply = fst (loadSessions P (apiBase st) w1);
                        p = refreshed_pointer (currentSessionId st) reply
                    in if p = sid
                       then (case refreshed_sessions (sessions st) reply of
                               [] \<Rightarrow> JNull
                             | s # rest \<Rightarrow> (case get_prop s ''id'' of Inr v \<Rightarrow> v | Inl e \<Rightarrow> p))
                       else p)))"
proof -
  let ?q = "confirm_delete_session_pre @ toString P sid @ confirm_delete_session_post"
  obtain answer w0 where q: "confirm P ?q w = (answer, w0)" by (cases "confirm P ?q w")
  obtain a w1 where d: "deleteSession P (apiBase st) sid w0 = (a, w1)"
    by (cases "deleteSession P (apiBase st) sid w0")
  show ?thesis
  proof (cases answer)
    case False
    with q show ?thesis by (simp add: deleteSess_def)
  next
    case True
    show ?thesis
    proof (cases a)
      case (Inl e)
      with q d True show ?thesis by (simp add: deleteSess_def Let_def)
    next
      case (Inr r)
      let ?st1 = "resume P w1 ((setError (clock P w0) [] st)\<lparr>loading := True\<rparr>)"
      let ?st2 = "fst (loadSessionsList P ?st1 w1)"
      have p: "currentSessionId ?st2
               = refreshed_pointer (currentSessionId st) (fst (loadSessions P (apiBase st) w1))"
        by (simp add: loadSessionsList_pointer)
      have x: "sessions ?st2
               = refreshed_sessions (sessions st) (fst (loadSessions P (apiBase st) w1))"
        by (simp add: loadSessionsList_sessions)
      show ?thesis
        using q d True Inr p x
        by (simp add: deleteSess_def Let_def strict_eq_def case_prod_unfold
            split: list.splits sum.splits)
    qed
  qed
qed

text \<open>
  C3, as amended. What each operation does to the pointer. \<^verbatim>\<open>loadMessagesList\<close>, \<^verbatim>\<open>sendMsg\<close>,
  \<^verbatim>\<open>rollbackTo\<close> and \<^verbatim>\<open>deleteMsg\<close> never change it. \<^verbatim>\<open>selectSession\<close> sets it to the requested
  identifier whenever that is truthy, without looking at the session list.
  \<^verbatim>\<open>loadSessionsList\<close> keeps a truthy pointer whatever list it stores; with a falsy pointer it
  takes the identifier of the first session of a returned non-empty list and otherwise
  leaves the pointer alone. \<^verbatim>\<open>createNewSession\<close> changes it only through the refresh that
  follows a successful create call. \<^verbatim>\<open>deleteSess\<close> changes it only after a confirmed and
  successful delete call: it refreshes, and if the pointer is then the deleted identifier
  it becomes the identifier of the first session of the local list, or \<^verbatim>\<open>null\<close> when that list
  is empty; the local list is the old one when the refresh was rejected, so the pointer
  can stay on the deleted session.

  Hence, with sessions present locally, the pointer is the identifier of one of them after
  a refresh that started with no session selected (it falls back to the first session),
  after a refresh whose list still holds the selected identifier, and after a successful
  delete of the selected session followed by a successful refresh. (For these three the
  first session is assumed to carry a proper identifier.)
\<close>

theorem pointer_after_operation:
  "currentSessionId (fst (loadMessagesList P st w)) = currentSessionId st
   \<and> currentSessionId (fst (snd (sendMsg P st w))) = currentSessionId st
   \<and> currentSessionId (fst (rollbackTo P i st w)) = currentSessionId st
   \<and> currentSessionId (fst (deleteMsg P i st w)) = currentSessionId st
   \<and> currentSessionId (fst (selectSession P ident st w))
       = (if truthy ident then ident else currentSessionId st)
   \<and> currentSessionId (fst (loadSessionsList P st w))
       = refreshed_pointer (currentSessionId st) (fst (loadSessions P (apiBase st) w))
   \<and> sessions (fst (loadSessionsList P st w))
       = refreshed_sessions (sessions st) (fst (loadSessions P (apiBase st) w))
   \<and> currentSessionId (fst (createNewSession P st w))
       = (case createSession P (apiBase st) w of
            (Inl e, w1) \<Rightarrow> currentSessionId st
          | (Inr r, w1) \<Rightarrow>
              refreshed_pointer (currentSessionId st) (fst (loadSessions P (apiBase st) w1)))
   \<and> currentSessionId (fst (deleteSess P sid st w))
       = (case confirm P (confirm_delete_session_pre @ toString P sid @ confirm_delete_session_post) w of
            (answer, w0) \<Rightarrow>
              if \<not> answer then currentSessionId st
              else
                (case deleteSession P (apiBase st) sid w0 of
                   (Inl e, w1) \<Rightarrow> currentSessionId st
                 | (Inr r, w1) \<Rightarrow>
                     (let reply = fst (loadSessions P (apiBase st) w1);
                          p = refreshed_pointer (currentSessionId st) reply
                      in if p = sid
                         then (case refreshed_sessions (sessions st) reply of
                                 [] \<Rightarrow> JNull
                               | s # rest \<Rightarrow> (case get_prop s ''id'' of Inr v \<Rightarrow> v | Inl e \<Rightarrow> p))
                         else p)))
   \<and> (truthy (currentSessionId st) \<longrightarrow>
        currentSessionId (fst (loadSessionsList P st w)) = currentSessionId st)
   \<and> (\<not> truthy (currentSessionId st)
      \<and> loadSessions P (apiBase st) w = (Inr (JArr (s # rest)), w1)
      \<and> get_prop s ''id'' = Inr v \<and> truthy v \<longrightarrow>
        currentSessionId (fst (loadSessionsList P st w)) = v
        \<and> pointer_ok (fst (loadSessionsList P st w)))
   \<and> (truthy (currentSessionId st)
      \<and> loadSessions P (apiBase st) w = (Inr (JArr xs), w1)
      \<and> currentSessionId st \<in> set (session_ids xs) \<longrightarrow>
        currentSessionId (fst (loadSessionsList P st w)) = currentSessionId st
        \<and> pointer_ok (fst (loadSessionsList P st w)))
   \<and> (truthy sid \<and> currentSessionId st = sid
      \<and> confirm P (confirm_delete_session_pre @ toString P sid @ confirm_delete_session_post) w
          = (True, w0)
      \<and> deleteSession P (apiBase st) sid w0 = (Inr r, w1)
      \<and> loadSessions P (apiBase st) w1 = (Inr (JArr (s # rest)), w2)
      \<and> get_prop s ''id'' = Inr v \<and> truthy v \<longrightarrow>
        currentSessionId (fst (deleteSess P sid st w)) = v
        \<and> pointer_ok (fst (deleteSess P sid st w)))
   \<and> (truthy sid \<and> currentSessionId st = sid
      \<and> confirm P (confirm_delete_session_pre @ toString P sid @ confirm_delete_session_post) w
          = (True, w0)
      \<and> deleteSession P (apiBase st) sid w0 = (Inr r, w1)
      \<and> loadSessions P (apiBase st) w1 = (Inr (JArr []), w2) \<longrightarrow>
        currentSessionId (fst (deleteSess P sid st w)) = JNull
        \<and> sessions (fst (deleteSess P sid st w)) = [])
   \<and> (truthy sid \<and> currentSessionId st = sid \<and> sessions st = s # rest
      \<and> get_prop s ''id'' = Inr v
      \<and> confirm P (confirm_delete_session_pre @ toString P sid @ confirm_delete_session_post) w
          = (True, w0)
      \<and> deleteSession P (apiBase st) sid w0 = (Inr r, w1)
      \<and> loadSessions P (apiBase st) w1 = (Inl e, w2) \<longrightarrow>
        currentSessionId (fst (deleteSess P sid st w)) = v
        \<and> sessions (fst (deleteSess P sid st w)) = s # rest)"
proof -
  let ?q = "confirm_delete_session_pre @ toString P sid @ confirm_delete_session_post"
  have ok: "pointer_ok t" if "sessions t = s # rest" and "currentSessionId t = v"
    and "get_prop s ''id'' = Inr v" and "truthy v" for t
    using that by (auto simp add: pointer_ok_def session_ids_def)
  have a: "currentSessionId (fst (loadSessionsList P st w)) = v
        \<and> pointer_ok (fst (loadSessionsList P st w))"
    if h: "\<not> truthy (currentSessionId st)"
      "loadSessions P (apiBase st) w = (Inr (JArr (s # rest)), w1)"
      "get_prop s ''id'' = Inr v" "truthy v"
  proof -
    have "sessions (fst (loadSessionsList P st w)) = s # rest"
      and "currentSessionId (fst (loadSessionsList P st w)) = v"
      using h by (simp_all add: loadSessionsList_def Let_def)
    then show ?thesis using ok h by blast
  qed
  have b: "currentSessionId (fst (loadSessionsList P st w)) = currentSessionId st
        \<and> pointer_ok (fst (loadSessionsList P st w))"
    if h: "truthy (currentSessionId st)" "loadSessions P (apiBase st) w = (Inr (JArr xs), w1)"
      "currentSessionId st \<in> set (session_ids xs)"
  proof -
    have "sessions (fst (loadSessionsList P st w)) = xs"
      using h by (simp add: loadSessionsList_def Let_def)
    moreover have "currentSessionId (fst (loadSessionsList P st w)) = currentSessionId st"
      using h by simp
    moreover have "currentSessionId st \<noteq> JNull" using h by auto
    ultimately show ?thesis using h by (simp add: pointer_ok_def)
  qed
  have c: "currentSessionId (fst (deleteSess P sid st w)) = v
        \<and> pointer_ok (fst (deleteSess P sid st w))"
    if h: "truthy sid" "currentSessionId st = sid" "confirm P ?q w = (True, w0)"
      "deleteSession P (apiBase st) sid w0 = (Inr r, w1)"
      "loadSessions P (apiBase st) w1 = (Inr (JArr (s # rest)), w2)"
      "get_prop s ''id'' = Inr v" "truthy v"
  proof -
    have "sessions (fst (deleteSess P sid st w)) = s # rest"
      and "currentSessionId (fst (deleteSess P sid st w)) = v"
      using h
      by (simp_all add: deleteSess_def loadSessionsList_def Let_def strict_eq_def case_prod_unfold)
    then show ?thesis using ok h by blast
  qed
  have d: "currentSessionId (fst (deleteSess P sid st w)) = JNull
        \<and> sessions (fst (deleteSess P sid st w)) = []"
    if "truthy sid" and "currentSessionId st = sid" and "confirm P ?q w = (True, w0)"
      and "deleteSession P (apiBase st) sid w0 = (Inr r, w1)"
      and "loadSessions P (apiBase st) w1 = (Inr (JArr []), w2)"
    using that
    by (simp add: deleteSess_def loadSessionsList_def Let_def strict_eq_def)
  have f: "currentSessionId (fst (deleteSess P sid st w)) = v
        \<and> sessions (fst (deleteSess P sid st w)) = s # rest"
    if "truthy sid" and "currentSessionId st = sid" and "sessions st = s # rest"
      and "get_prop s ''id'' = Inr v" and "confirm P ?q w = (True, w0)"
      and "deleteSession P (apiBase st) sid w0 = (Inr r, w1)"
      and "loadSessions P (apiBase st) w1 = (Inl e, w2)"
    using that
    by (simp add: deleteSess_def Let_def strict_eq_def loadSessionsList_rejected case_prod_unfold)
  have keep: "truthy (currentSessionId st) \<longrightarrow>
        currentSessionId (fst (loadSessionsList P st w)) = currentSessionId st"
    by simp
  have eqs: "currentSessionId (fst (loadMessagesList P st w)) = currentSessionId st"
    "currentSessionId (fst (snd (sendMsg P st w))) = currentSessionId st"
    "currentSessionId (fst (rollbackTo P i st w)) = currentSessionId st"
    "currentSessionId (fst (deleteMsg P i st w)) = currentSessionId st"
    "currentSessionId (fst (selectSession P ident st w))
       = (if truthy ident then ident else currentSessionId st)"
    by (simp_all only: loadMessagesList_frame sendMsg_pointer rollbackTo_pointer deleteMsg_pointer
        selectSession_pointer_all)
  show ?thesis
    apply (intro conjI)
                  apply (rule eqs(1))
                 apply (rule eqs(2))
                apply (rule eqs(3))
               apply (rule eqs(4))
              apply (rule eqs(5))
             apply (rule loadSessionsList_pointer)
            apply (rule loadSessionsList_sessions)
           apply (rule createNewSession_pointer)
          apply (rule deleteSess_pointer)
         apply (rule keep)
    using a b c d f by blast+
qed


theorem pointer_after_operation_witness:
  "currentSessionId (fst (selectSession scripted (JStr ''ghost'') chatting (0, []))) = JStr ''ghost''
   \<and> currentSessionId (fst (loadSessionsList scripted chatting
      (0, [(5, json_response (JArr [session ''s2'']))]))) = JStr ''s1''
   \<and> pointer_ok (fst (loadSessionsList scripted initial_state
      (0, [(5, json_response (JArr [session ''s1'', session ''s2'']))])))
   \<and> currentSessionId (fst (loadSessionsList scripted initial_state
      (0, [(5, json_response (JArr [session ''s1'', session ''s2'']))]))) = JStr ''s1''
   \<and> pointer_ok (fst (loadSessionsList scripted chatting
      (0, [(5, json_response (JArr [session ''s2'', session ''s1'']))])))
   \<and> pointer_ok (fst (deleteSess scripted (JStr ''s1'') chatting
      (0, [(5, json_response (JObj [(''message'', JStr ''Session s1 deleted'')])),
           (5, json_response (JArr [session ''s2'']))])))
   \<and> currentSessionId (fst (deleteSess scripted (JStr ''s1'') chatting
      (0, [(5, json_response (JObj [(''message'', JStr ''Session s1 deleted'')])),
           (5, json_response (JArr []))]))) = JNull
   \<and> currentSessionId (fst (deleteSess scripted (JStr ''s1'') chatting
      (0, [(5, json_response (JObj [(''message'', JStr ''Session s1 deleted'')]))]))) = JStr ''s1''"
proof -
  let ?r = "JObj [(''message'', JStr ''Session s1 deleted'')]"
  let ?q = "confirm_delete_session_pre @ toString scripted (JStr ''s1'') @ confirm_delete_session_post"
  let ?e = "TypeError ''Failed to fetch''"
  let ?w = "(0, [(5, json_response (JArr [session ''s1'', session ''s2'']))]) :: script"
  let ?u = "(0, [(5, json_response (JArr [session ''s2'', session ''s1'']))]) :: script"
  let ?k = "(0, [(5, json_response (JArr [session ''s2'']))]) :: script"
  let ?wb = "(5, [(5, json_response (JArr [session ''s2'']))]) :: script"
  let ?wa = "(0, [(5, json_response ?r), (5, json_response (JArr [session ''s2'']))]) :: script"
  let ?vb = "(5, [(5, json_response (JArr []))]) :: script"
  let ?va = "(0, [(5, json_response ?r), (5, json_response (JArr []))]) :: script"
  let ?xa = "(0, [(5, json_response ?r)]) :: script"
  have sel: "truthy (JStr ''s1'')" "currentSessionId chatting = JStr ''s1''"
    "truthy (currentSessionId chatting)" "\<not> truthy (currentSessionId initial_state)"
    "truthy (JStr ''ghost'')" "sessions chatting = session ''s1'' # [session ''s2'']"
    by simp_all
  have ids: "get_prop (session ''s1'') ''id'' = Inr (JStr ''s1'')"
    "get_prop (session ''s2'') ''id'' = Inr (JStr ''s2'')" "truthy (JStr ''s2'')"
    "currentSessionId chatting \<in> set (session_ids [session ''s2'', session ''s1''])"
    by (simp_all add: session_ids_def)
  have a1: "loadSessions scripted (apiBase initial_state) ?w
            = (Inr (JArr (session ''s1'' # [session ''s2''])), (5, []))"
    by (simp add: loadSessions_def)
  have b1: "loadSessions scripted (apiBase chatting) ?u
            = (Inr (JArr [session ''s2'', session ''s1'']), (5, []))"
    by (simp add: loadSessions_def)
  have c1: "confirm scripted ?q ?wa = (True, ?wa)" by simp
  have c2: "deleteSession scripted (apiBase chatting) (JStr ''s1'') ?wa = (Inr ?r, ?wb)"
    by (simp add: deleteSession_def)
  have c3: "loadSessions scripted (apiBase chatting) ?wb = (Inr (JArr (session ''s2'' # [])), (10, []))"
    by (simp add: loadSessions_def)
  have d1: "confirm scripted ?q ?va = (True, ?va)" by simp
  have d2: "deleteSession scripted (apiBase chatting) (JStr ''s1'') ?va = (Inr ?r, ?vb)"
    by (simp add: deleteSession_def)
  have d3: "loadSessions scripted (apiBase chatting) ?vb = (Inr (JArr []), (10, []))"
    by (simp add: loadSessions_def)
  have f1: "confirm scripted ?q ?xa = (True, ?xa)" by simp
  have f2: "deleteSession scripted (apiBase chatting) (JStr ''s1'') ?xa = (Inr ?r, (5, []))"
    by (simp add: deleteSession_def)
  have f3: "loadSessions scripted (apiBase chatting) (5, []) = (Inl ?e, (5, []))"
    by (simp add: loadSessions_def)
  have "currentSessionId (fst (selectSession scripted (JStr ''ghost'') chatting (0, []))) = JStr ''ghost''"
    using pointer_after_operation [where P = scripted and st = chatting and w = "(0, [])"
        and ident = "JStr ''ghost''",
        THEN conjunct2, THEN conjunct2, THEN conjunct2, THEN conjunct2, THEN conjunct1] sel
    by simp
  moreover have "currentSessionId (fst (loadSessionsList scripted chatting ?k)) = JStr ''s1''"
    using pointer_after_operation [where P = scripted and st = chatting and w = ?k,
        THEN conjunct2, THEN conjunct2, THEN conjunct2, THEN conjunct2, THEN conjunct2,
        THEN conjunct2, THEN conjunct2, THEN conjunct2, THEN conjunct2, THEN conjunct1] sel
    by simp
  moreover have "pointer_ok (fst (loadSessionsList scripted initial_state ?w))
      \<and> currentSessionId (fst (loadSessionsList scripted initial_state ?w)) = JStr ''s1''"
    using pointer_after_operation [where P = scripted and st = initial_state and w = ?w
        and s = "session ''s1''" and rest = "[session ''s2'']" and v = "JStr ''s1''"
        and ?w1.0 = "(5, [])",
        THEN conjunct2, THEN conjunct2, THEN conjunct2, THEN conjunct2, THEN conjunct2,
        THEN conjunct2, THEN conjunct2, THEN conjunct2, THEN conjunct2, THEN conjunct2,
        THEN conjunct1] sel ids a1
    by simp
  moreover have "pointer_ok (fst (loadSessionsList scripted chatting ?u))"
    using pointer_after_operation [where P = scripted and st = chatting and w = ?u
        and xs = "[session ''s2'', session ''s1'']" and ?w1.0 = "(5, [])",
        THEN conjunct2, THEN conjunct2, THEN conjunct2, THEN conjunct2, THEN conjunct2,
        THEN conjunct2, THEN conjunct2, THEN conjunct2, THEN conjunct2, THEN conjunct2,
        THEN conjunct2, THEN conjunct1] sel ids b1
    by simp
  moreover have "pointer_ok (fst (deleteSess scripted (JStr ''s1'') chatting ?wa))"
    using pointer_after_operation [where P = scripted and st = chatting and sid = "JStr ''s1''"
        and w = ?wa and ?w0.0 = ?wa and r = ?r and ?w1.0 = ?wb and s = "session ''s2''"
        and rest = "[]" and v = "JStr ''s2''" and ?w2.0 = "(10, [])",
        THEN conjunct2, THEN conjunct2, THEN conjunct2, THEN conjunct2, THEN conjunct2,
        THEN conjunct2, THEN conjunct2, THEN conjunct2, THEN conjunct2, THEN conjunct2,
        THEN conjunct2, THEN conjunct2, THEN conjunct1] sel ids c1 c2 c3
    by simp
  moreover have "currentSessionId (fst (deleteSess scripted (JStr ''s1'') chatting ?va)) = JNull"
    using pointer_after_operation [where P = scripted and st = chatting and sid = "JStr ''s1''"
        and w = ?va and ?w0.0 = ?va and r = ?r and ?w1.0 = ?vb and ?w2.0 = "(10, [])",
        THEN conjunct2, THEN conjunct2, THEN conjunct2, THEN conjunct2, THEN conjunct2,
        THEN conjunct2, THEN conjunct2, THEN conjunct2, THEN conjunct2, THEN conjunct2,
        THEN conjunct2, THEN conjunct2, THEN conjunct2, THEN conjunct1]
      sel d1 d2 d3
    by simp
  moreover have "currentSessionId (fst (deleteSess scripted (JStr ''s1'') chatting ?xa)) = JStr ''s1''"
    using pointer_after_operation [where P = scripted and st = chatting and sid = "JStr ''s1''"
        and w = ?xa and ?w0.0 = ?xa and r = ?r and ?w1.0 = "(5, [])" and s = "session ''s1''"
        and rest = "[session ''s2'']" and v = "JStr ''s1''" and e = ?e and ?w2.0 = "(5, [])",
        THEN conjunct2, THEN conjunct2, THEN conjunct2, THEN conjunct2, THEN conjunct2,
        THEN conjunct2, THEN conjunct2, THEN conjunct2, THEN conjunct2, THEN conjunct2,
        THEN conjunct2, THEN conjunct2, THEN conjunct2, THEN conjunct2]
      sel ids f1 f2 f3
    by simp
  ultimately show ?thesis by simp
qed

text \<open>
  C3 as stated fails. \<^verbatim>\<open>selectSession\<close> stores any truthy identifier without looking at the
  session list, and a refresh keeps a selected identifier that the new list no longer
  holds: in both runs the state before satisfies the invariant and the state after does
  not.
\<close>

theorem pointer_not_revalidated:
  "pointer_ok chatting
   \<and> \<not> pointer_ok (fst (selectSession scripted (JStr ''ghost'') chatting
                          (0, [(5, json_response (JArr []))])))
   \<and> currentSessionId (fst (selectSession scripted (JStr ''ghost'') chatting
                          (0, [(5, json_response (JArr []))]))) = JStr ''ghost''
   \<and> \<not> pointer_ok (fst (loadSessionsList scripted chatting
                          (0, [(5, json_response (JArr [session ''s2'']))])))
   \<and> sessions (fst (loadSessionsList scripted chatting
                          (0, [(5, json_response (JArr [session ''s2'']))]))) = [session ''s2'']
   \<and> currentSessionId (fst (loadSessionsList scripted chatting
                          (0, [(5, json_response (JArr [session ''s2'']))]))) = JStr ''s1''"
proof -
  have a: "pointer_ok chatting"
    by (simp add: pointer_ok_def session_ids_def)
  have b: "sessions (fst (selectSession scripted (JStr ''ghost'') chatting (0, [(5, json_response (JArr []))])))
           = [session ''s1'', session ''s2'']"
    "currentSessionId (fst (selectSession scripted (JStr ''ghost'') chatting (0, [(5, json_response (JArr []))])))
           = JStr ''ghost''"
    by (simp_all add: selectSession_pointer)
  have c: "sessions (fst (loadSessionsList scripted chatting (0, [(5, json_response (JArr [session ''s2'']))])))
           = [session ''s2'']"
    by (simp add: loadSessionsList_def loadSessions_def Let_def)
  have d: "currentSessionId (fst (loadSessionsList scripted chatting (0, [(5, json_response (JArr [session ''s2'']))])))
           = JStr ''s1''"
    by simp
  show ?thesis
    using a b c d by (simp add: pointer_ok_def session_ids_def)
qed

section \<open>Transitions that meet a failure\<close>

text \<open>
  C2, as amended. When the first gateway call of a transition fails, the session list and
  the message list end as they started, and so does the pointer, except in \<^verbatim>\<open>selectSession\<close>,
  which has already stored the requested identifier and keeps it. (The two deletions are
  taken after the user's confirmation.)

  When the first call succeeds and a later call of the same transition fails, what the
  transition has stored by then stays:
  \<^item> refresh: the fetch of the messages of the session it has just selected fails, and the
    new list and the new pointer stay with the old messages;
  \<^item> create: the refresh fails, and the messages stay emptied beside the old list and
    pointer; or the refresh selects a session whose messages cannot be fetched, and the new
    list and pointer stay beside the emptied messages;
  \<^item> send, rollback, delete-message: the refresh fails, and the message list stays the array
    that the first call returned, beside the old list and pointer;
  \<^item> delete-session, the refresh fails: with a pointer other than the deleted identifier
    nothing local has changed; with the deleted session selected the pointer is read from
    the first session of the old list (the messages staying as they were when the fetch for
    that session fails too), or pointer and messages are cleared when the old list is empty;
  \<^item> delete-session, the refresh succeeds and the fetch that follows fails, be it for the
    session selected in place of the deleted one or, with no session selected before, for
    the session that the refresh selects (one other than the deleted): the new list and the
    new pointer stay with the old messages.
\<close>

theorem gateway_failure_outcomes:
  "(loadSessions P (apiBase st) w = (Inl e, w1) \<longrightarrow>
      observable (fst (loadSessionsList P st w)) = observable st)
   \<and> (truthy ident \<and> ident \<noteq> currentSessionId st
       \<and> getMessages P (apiBase st) ident w = (Inl e, w1) \<longrightarrow>
      observable (fst (selectSession P ident st w)) = (sessions st, ident, messages st))
   \<and> (createSession P (apiBase st) w = (Inl e, w1) \<longrightarrow>
      observable (fst (createNewSession P st w)) = observable st)
   \<and> (truthy (currentSessionId st)
       \<and> getMessages P (apiBase st) (currentSessionId st) w = (Inl e, w1) \<longrightarrow>
      observable (fst (loadMessagesList P st w)) = observable st)
   \<and> (messages st = JArr ms \<and> truthy (currentSessionId st) \<and> trim (newMessage st) \<noteq> []
       \<and> sendMessage P (apiBase st) (currentSessionId st) (trim (newMessage st)) w = (Inl e, w1) \<longrightarrow>
      observable (fst (snd (sendMsg P st w))) = observable st)
   \<and> (truthy (currentSessionId st)
       \<and> rollback P (apiBase st) (currentSessionId st) i w = (Inl e, w1) \<longrightarrow>
      observable (fst (rollbackTo P i st w)) = observable st)
   \<and> (truthy (currentSessionId st)
       \<and> confirm P (confirm_delete_message_pre @ show_int (i + 1) @ confirm_delete_message_post) w
           = (True, w0)
       \<and> deleteMessage P (apiBase st) (currentSessionId st) i w0 = (Inl e, w1) \<longrightarrow>
      observable (fst (deleteMsg P i st w)) = observable st)
   \<and> (confirm P (confirm_delete_session_pre @ toString P sid @ confirm_delete_session_post) w
           = (True, w0)
       \<and> deleteSession P (apiBase st) sid w0 = (Inl e, w1) \<longrightarrow>
      observable (fst (deleteSess P sid st w)) = observable st)
   \<and> (\<not> truthy (currentSessionId st)
      \<and> loadSessions P (apiBase st) w = (Inr (JArr (s # rest)), w1)
      \<and> get_prop s ''id'' = Inr v \<and> truthy v
      \<and> getMessages P (apiBase st) v w1 = (Inl e, w2) \<longrightarrow>
        observable (fst (loadSessionsList P st w)) = (s # rest, v, messages st))
   \<and> (createSession P (apiBase st) w = (Inr r, w1)
      \<and> loadSessions P (apiBase st) w1 = (Inl e, w2) \<longrightarrow>
        observable (fst (createNewSession P st w)) = (sessions st, currentSessionId st, JArr []))
   \<and> (\<not> truthy (currentSessionId st)
      \<and> createSession P (apiBase st) w = (Inr r, w1)
      \<and> loadSessions P (apiBase st) w1 = (Inr (JArr (s # rest)), w2)
      \<and> get_prop s ''id'' = Inr v \<and> truthy v
      \<and> getMessages P (apiBase st) v w2 = (Inl e, w3) \<longrightarrow>
        observable (fst (createNewSession P st w)) = (s # rest, v, JArr []))
   \<and> (messages st = JArr ms \<and> truthy (currentSessionId st) \<and> trim (newMessage st) \<noteq> []
      \<and> sendMessage P (apiBase st) (currentSessionId st) (trim (newMessage st)) w
          = (Inr (JArr ds), w1)
      \<and> loadSessions P (apiBase st) w1 = (Inl e, w2) \<longrightarrow>
        observable (fst (snd (sendMsg P st w))) = (sessions st, currentSessionId st, JArr ds))
   \<and> (truthy (currentSessionId st)
      \<and> rollback P (apiBase st) (currentSessionId st) i w = (Inr (JArr ds), w1)
      \<and> loadSessions P (apiBase st) w1 = (Inl e, w2) \<longrightarrow>
        observable (fst (rollbackTo P i st w)) = (sessions st, currentSessionId st, JArr ds))
   \<and> (truthy (currentSessionId st)
      \<and> confirm P (confirm_delete_message_pre @ show_int (i + 1) @ confirm_delete_message_post) w
          = (True, w0)
      \<and> deleteMessage P (apiBase st) (currentSessionId st) i w0 = (Inr (JArr ds), w1)
      \<and> loadSessions P (apiBase st) w1 = (Inl e, w2) \<longrightarrow>
        observable (fst (deleteMsg P i st w)) = (sessions st, currentSessionId st, JArr ds))
   \<and> (currentSessionId st \<noteq> sid
      \<and> confirm P (confirm_delete_session_pre @ toString P sid @ confirm_delete_session_post) w
          = (True, w0)
      \<and> deleteSession P (apiBase st) sid w0 = (Inr r, w1)
      \<and> loadSessions P (apiBase st) w1 = (Inl e, w2) \<longrightarrow>
        observable (fst (deleteSess P sid st w)) = observable st)
   \<and> (truthy sid \<and> currentSessionId st = sid \<and> sessions st = s # rest
      \<and> get_prop s ''id'' = Inr v
      \<and> confirm P (confirm_delete_session_pre @ toString P sid @ confirm_delete_session_post) w
          = (True, w0)
      \<and> deleteSession P (apiBase st) sid w0 = (Inr r, w1)
      \<and> loadSessions P (apiBase st) w1 = (Inl e, w2) \<longrightarrow>
        sessions (fst (deleteSess P sid st w)) = s # rest
        \<and> currentSessionId (fst (deleteSess P sid st w)) = v)
   \<and> (truthy sid \<and> currentSessionId st = sid
      \<and> confirm P (confirm_delete_session_pre @ toString P sid @ confirm_delete_session_post) w
          = (True, w0)
      \<and> deleteSession P (apiBase st) sid w0 = (Inr r, w1)
      \<and> loadSessions P (apiBase st) w1 = (Inr (JArr (s # rest)), w2)
      \<and> get_prop s ''id'' = Inr v \<and> truthy v
      \<and> getMessages P (apiBase st) v w2 = (Inl e, w3) \<longrightarrow>
        observable (fst (deleteSess P sid st w)) = (s # rest, v, messages st))
   \<and> (truthy sid \<and> currentSessionId st = sid \<and> sessions st = s # rest
      \<and> get_prop s ''id'' = Inr v \<and> truthy v
      \<and> confirm P (confirm_delete_session_pre @ toString P sid @ confirm_delete_session_post) w
          = (True, w0)
      \<and> deleteSession P (apiBase st) sid w0 = (Inr r, w1)
      \<and> loadSessions P (apiBase st) w1 = (Inl e, w2)
      \<and> getMessages P (apiBase st) v w2 = (Inl e', w3) \<longrightarrow>
        observable (fst (deleteSess P sid st w)) = (s # rest, v, messages st))
   \<and> (truthy sid \<and> currentSessionId st = sid \<and> sessions st = []
      \<and> confirm P (confirm_delete_session_pre @ toString P sid @ confirm_delete_session_post) w
          = (True, w0)
      \<and> deleteSession P (apiBase st) sid w0 = (Inr r, w1)
      \<and> loadSessions P (apiBase st) w1 = (Inl e, w2) \<longrightarrow>
        observable (fst (deleteSess P sid st w)) = ([], JNull, JArr []))
   \<and> (\<not> truthy (currentSessionId st) \<and> v \<noteq> sid
      \<and> confirm P (confirm_delete_session_pre @ toString P sid @ confirm_delete_session_post) w
          = (True, w0)
      \<and> deleteSession P (apiBase st) sid w0 = (Inr r, w1)
      \<and> loadSessions P (apiBase st) w1 = (Inr (JArr (s # rest)), w2)
      \<and> get_prop s ''id'' = Inr v \<and> truthy v
      \<and> getMessages P (apiBase st) v w2 = (Inl e, w3) \<longrightarrow>
        observable (fst (deleteSess P sid st w)) = (s # rest, v, messages st))"
proof -
  have sel: "observable (fst (selectSession P ident st w)) = (sessions st, ident, messages st)"
    if "truthy ident" and "ident \<noteq> currentSessionId st"
      and "getMessages P (apiBase st) ident w = (Inl e, w1)"
    using that
    by (simp add: selectSession_def strict_eq_def loadMessagesList_rejected observable_def)
  have first:
    "loadSessions P (apiBase st) w = (Inl e, w1) \<longrightarrow>
      observable (fst (loadSessionsList P st w)) = observable st"
    "createSession P (apiBase st) w = (Inl e, w1) \<longrightarrow>
      observable (fst (createNewSession P st w)) = observable st"
    "truthy (currentSessionId st)
       \<and> getMessages P (apiBase st) (currentSessionId st) w = (Inl e, w1) \<longrightarrow>
      observable (fst (loadMessagesList P st w)) = observable st"
    "messages st = JArr ms \<and> truthy (currentSessionId st) \<and> trim (newMessage st) \<noteq> []
       \<and> sendMessage P (apiBase st) (currentSessionId st) (trim (newMessage st)) w = (Inl e, w1) \<longrightarrow>
      observable (fst (snd (sendMsg P st w))) = observable st"
    "truthy (currentSessionId st)
       \<and> rollback P (apiBase st) (currentSessionId st) i w = (Inl e, w1) \<longrightarrow>
      observable (fst (rollbackTo P i st w)) = observable st"
    "truthy (currentSessionId st)
       \<and> confirm P (confirm_delete_message_pre @ show_int (i + 1) @ confirm_delete_message_post) w
           = (True, w0)
       \<and> deleteMessage P (apiBase st) (currentSessionId st) i w0 = (Inl e, w1) \<longrightarrow>
      observable (fst (deleteMsg P i st w)) = observable st"
    "confirm P (confirm_delete_session_pre @ toString P sid @ confirm_delete_session_post) w
           = (True, w0)
       \<and> deleteSession P (apiBase st) sid w0 = (Inl e, w1) \<longrightarrow>
      observable (fst (deleteSess P sid st w)) = observable st"
    by (simp_all add: loadSessionsList_rejected createNewSession_rejected loadMessagesList_rejected
        sendMsg_rejected rollbackTo_rejected deleteMsg_rejected deleteSess_rejected observable_def)
  let ?qs = "confirm_delete_session_pre @ toString P sid @ confirm_delete_session_post"
  let ?qm = "confirm_delete_message_pre @ show_int (i + 1) @ confirm_delete_message_post"
  have l1: "observable (fst (loadSessionsList P st w)) = (s # rest, v, messages st)"
    if "\<not> truthy (currentSessionId st)"
      and "loadSessions P (apiBase st) w = (Inr (JArr (s # rest)), w1)"
      and "get_prop s ''id'' = Inr v" and "truthy v"
      and "getMessages P (apiBase st) v w1 = (Inl e, w2)"
    using that by (simp add: loadSessionsList_def loadMessagesList_def Let_def observable_def)
  have l2: "observable (fst (createNewSession P st w)) = (sessions st, currentSessionId st, JArr [])"
    if "createSession P (apiBase st) w = (Inr r, w1)"
      and "loadSessions P (apiBase st) w1 = (Inl e, w2)"
    using that
    by (simp add: createNewSession_def Let_def loadSessionsList_rejected observable_def)
  have l3: "observable (fst (createNewSession P st w)) = (s # rest, v, JArr [])"
    if "\<not> truthy (currentSessionId st)"
      and "createSession P (apiBase st) w = (Inr r, w1)"
      and "loadSessions P (apiBase st) w1 = (Inr (JArr (s # rest)), w2)"
      and "get_prop s ''id'' = Inr v" and "truthy v"
      and "getMessages P (apiBase st) v w2 = (Inl e, w3)"
    using that
    by (simp add: createNewSession_def loadSessionsList_def loadMessagesList_def Let_def observable_def)
  have l4: "observable (fst (snd (sendMsg P st w))) = (sessions st, currentSessionId st, JArr ds)"
    if "messages st = JArr ms" and "truthy (currentSessionId st)" and "trim (newMessage st) \<noteq> []"
      and "sendMessage P (apiBase st) (currentSessionId st) (trim (newMessage st)) w
          = (Inr (JArr ds), w1)"
      and "loadSessions P (apiBase st) w1 = (Inl e, w2)"
    using that
    by (simp add: sendMsg_def Let_def store_messages_def loadSessionsList_rejected observable_def)
  have l5: "observable (fst (rollbackTo P i st w)) = (sessions st, currentSessionId st, JArr ds)"
    if "truthy (currentSessionId st)"
      and "rollback P (apiBase st) (currentSessionId st) i w = (Inr (JArr ds), w1)"
      and "loadSessions P (apiBase st) w1 = (Inl e, w2)"
    using that
    by (simp add: rollbackTo_def Let_def store_messages_def loadSessionsList_rejected observable_def)
  have l6: "observable (fst (deleteMsg P i st w)) = (sessions st, currentSessionId st, JArr ds)"
    if "truthy (currentSessionId st)" and "confirm P ?qm w = (True, w0)"
      and "deleteMessage P (apiBase st) (currentSessionId st) i w0 = (Inr (JArr ds), w1)"
      and "loadSessions P (apiBase st) w1 = (Inl e, w2)"
    using that
    by (simp add: deleteMsg_def Let_def store_messages_def loadSessionsList_rejected observable_def)
  have l7: "observable (fst (deleteSess P sid st w)) = observable st"
    if "currentSessionId st \<noteq> sid" and "confirm P ?qs w = (True, w0)"
      and "deleteSession P (apiBase st) sid w0 = (Inr r, w1)"
      and "loadSessions P (apiBase st) w1 = (Inl e, w2)"
    using that
    by (simp add: deleteSess_def Let_def strict_eq_def loadSessionsList_rejected observable_def)
  have l8: "sessions (fst (deleteSess P sid st w)) = s # rest
        \<and> currentSessionId (fst (deleteSess P sid st w)) = v"
    if "truthy sid" and "currentSessionId st = sid" and "sessions st = s # rest"
      and "get_prop s ''id'' = Inr v" and "confirm P ?qs w = (True, w0)"
      and "deleteSession P (apiBase st) sid w0 = (Inr r, w1)"
      and "loadSessions P (apiBase st) w1 = (Inl e, w2)"
    using that
    by (simp add: deleteSess_def Let_def strict_eq_def loadSessionsList_rejected case_prod_unfold)
  have l9: "observable (fst (deleteSess P sid st w)) = (s # rest, v, messages st)"
    if "truthy sid" and "currentSessionId st = sid" and "confirm P ?qs w = (True, w0)"
      and "deleteSession P (apiBase st) sid w0 = (Inr r, w1)"
      and "loadSessions P (apiBase st) w1 = (Inr (JArr (s # rest)), w2)"
      and "get_prop s ''id'' = Inr v" and "truthy v"
      and "getMessages P (apiBase st) v w2 = (Inl e, w3)"
    using that
    by (simp add: deleteSess_def loadSessionsList_def loadMessagesList_def Let_def strict_eq_def
        observable_def)
  have l10: "observable (fst (deleteSess P sid st w)) = (s # rest, v, messages st)"
    if "truthy sid" and "currentSessionId st = sid" and "sessions st = s # rest"
      and "get_prop s ''id'' = Inr v" and "truthy v" and "confirm P ?qs w = (True, w0)"
      and "deleteSession P (apiBase st) sid w0 = (Inr r, w1)"
      and "loadSessions P (apiBase st) w1 = (Inl e, w2)"
      and "getMessages P (apiBase st) v w2 = (Inl e', w3)"
    using that
    by (simp add: deleteSess_def Let_def strict_eq_def loadSessionsList_rejected
        loadMessagesList_rejected observable_def)
  have l11: "observable (fst (deleteSess P sid st w)) = ([], JNull, JArr [])"
    if "truthy sid" and "currentSessionId st = sid" and "sessions st = []"
      and "confirm P ?qs w = (True, w0)"
      and "deleteSession P (apiBase st) sid w0 = (Inr r, w1)"
      and "loadSessions P (apiBase st) w1 = (Inl e, w2)"
    using that
    by (simp add: deleteSess_def Let_def strict_eq_def loadSessionsList_rejected observable_def)
  have l12: "observable (fst (deleteSess P sid st w)) = (s # rest, v, messages st)"
    if "\<not> truthy (currentSessionId st)" and "v \<noteq> sid" and "confirm P ?qs w = (True, w0)"
      and "deleteSession P (apiBase st) sid w0 = (Inr r, w1)"
      and "loadSessions P (apiBase st) w1 = (Inr (JArr (s # rest)), w2)"
      and "get_prop s ''id'' = Inr v" and "truthy v"
      and "getMessages P (apiBase st) v w2 = (Inl e, w3)"
    using that
    by (simp add: deleteSess_def loadSessionsList_def loadMessagesList_def Let_def strict_eq_def
        observable_def)
  show ?thesis
    apply (intro conjI)
    subgoal using first(1) by blast
    subgoal using sel by blast
    subgoal using first(2) by blast
    subgoal using first(3) by blast
    subgoal using first(4) by blast
    subgoal using first(5) by blast
    subgoal using first(6) by blast
    subgoal using first(7) by blast
    subgoal using l1 by blast
    subgoal using l2 by blast
    subgoal using l3 by blast
    subgoal using l4 by blast
    subgoal using l5 by blast
    subgoal using l6 by blast
    subgoal using l7 by blast
    subgoal using l8 by blast
    subgoal using l9 by blast
    subgoal using l10 by blast
    subgoal using l11 by blast
    subgoal using l12 by blast
    done
qed

theorem gateway_failure_outcomes_witness:
  "observable (fst (loadSessionsList scripted chatting (0, []))) = observable chatting
   \<and> observable (fst (selectSession scripted (JStr ''s2'') chatting (0, [])))
       = (sessions chatting, JStr ''s2'', messages chatting)
   \<and> observable (fst (createNewSession scripted chatting (0, []))) = observable chatting
   \<and> observable (fst (loadMessagesList scripted chatting (0, []))) = observable chatting
   \<and> observable (fst (snd (sendMsg scripted chatting (0, [])))) = observable chatting
   \<and> observable (fst (rollbackTo scripted 2 chatting (0, []))) = observable chatting
   \<and> observable (fst (deleteMsg scripted 2 chatting (0, []))) = observable chatting
   \<and> observable (fst (deleteSess scripted (JStr ''s1'') chatting (0, []))) = observable chatting
   \<and> observable (fst (loadSessionsList scripted initial_state
        (0, [(5, json_response (JArr [session ''s1'', session ''s2'']))])))
       = ([session ''s1'', session ''s2''], JStr ''s1'', JArr [])
   \<and> observable (fst (createNewSession scripted chatting (0, [(5, json_response (session ''s3''))])))
       = (sessions chatting, JStr ''s1'', JArr [])
   \<and> observable (fst (createNewSession scripted initial_state
        (0, [(5, json_response (session ''s1'')), (5, json_response (JArr [session ''s1'']))])))
       = ([session ''s1''], JStr ''s1'', JArr [])
   \<and> observable (fst (snd (sendMsg scripted chatting
        (0, [(5, json_response (JArr [chat_message ''user'' ''hello'', chat_message ''assistant'' ''hi'']))]))))
       = (sessions chatting, JStr ''s1'', JArr [chat_message ''user'' ''hello'', chat_message ''assistant'' ''hi''])
   \<and> observable (fst (rollbackTo scripted 2 chatting
        (0, [(5, json_response (JArr [chat_message ''user'' ''hello'', chat_message ''assistant'' ''hi'']))])))
       = (sessions chatting, JStr ''s1'', JArr [chat_message ''user'' ''hello'', chat_message ''assistant'' ''hi''])
   \<and> observable (fst (deleteMsg scripted 2 chatting
        (0, [(5, json_response (JArr [chat_message ''user'' ''hello'', chat_message ''assistant'' ''hi'']))])))
       = (sessions chatting, JStr ''s1'', JArr [chat_message ''user'' ''hello'', chat_message ''assistant'' ''hi''])
   \<and> observable (fst (deleteSess scripted (JStr ''s2'') chatting
        (0, [(5, json_response (JObj [(''message'', JStr ''deleted'')]))]))) = observable chatting
   \<and> currentSessionId (fst (deleteSess scripted (JStr ''s1'') chatting
        (0, [(5, json_response (JObj [(''message'', JStr ''deleted'')]))]))) = JStr ''s1''
   \<and> observable (fst (deleteSess scripted (JStr ''s1'') chatting
        (0, [(5, json_response (JObj [(''message'', JStr ''deleted'')])),
             (5, json_response (JArr [session ''s2'']))])))
       = ([session ''s2''], JStr ''s2'', messages chatting)
   \<and> observable (fst (deleteSess scripted (JStr ''s1'') chatting
        (0, [(5, json_response (JObj [(''message'', JStr ''deleted'')]))])))
       = (sessions chatting, JStr ''s1'', messages chatting)
   \<and> observable (fst (deleteSess scripted (JStr ''s1'') (chatting\<lparr>sessions := []\<rparr>)
        (0, [(5, json_response (JObj [(''message'', JStr ''deleted'')]))])))
       = ([], JNull, JArr [])
   \<and> observable (fst (deleteSess scripted (JStr ''s9'') initial_state
        (0, [(5, json_response (JObj [(''message'', JStr ''deleted'')])),
             (5, json_response (JArr [session ''s2'']))])))
       = ([session ''s2''], JStr ''s2'', JArr [])"
proof -
  let ?w = "(0, []) :: script"
  let ?e = "TypeError ''Failed to fetch''"
  let ?r = "JObj [(''message'', JStr ''deleted'')]"
  let ?ds = "[chat_message ''user'' ''hello'', chat_message ''assistant'' ''hi'']"
  let ?a = "(0, [(5, json_response (JArr [session ''s1'', session ''s2'']))]) :: script"
  let ?b = "(0, [(5, json_response (session ''s3''))]) :: script"
  let ?c1 = "(5, [(5, json_response (JArr [session ''s1'']))]) :: script"
  let ?c = "(0, [(5, json_response (session ''s1'')), (5, json_response (JArr [session ''s1'']))]) :: script"
  let ?d = "(0, [(5, json_response (JArr ?ds))]) :: script"
  let ?f = "(0, [(5, json_response ?r)]) :: script"
  let ?g1 = "(5, [(5, json_response (JArr [session ''s2'']))]) :: script"
  let ?g = "(0, [(5, json_response ?r), (5, json_response (JArr [session ''s2'']))]) :: script"
  have sel: "truthy (currentSessionId chatting)" "truthy (JStr ''s2'')" "truthy (JStr ''s1'')"
    "JStr ''s2'' \<noteq> currentSessionId chatting" "currentSessionId chatting \<noteq> JStr ''s2''"
    "currentSessionId chatting = JStr ''s1''" "trim (newMessage chatting) \<noteq> []"
    "messages chatting = JArr [chat_message ''user'' ''u0'', chat_message ''assistant'' ''a0'',
                               chat_message ''user'' ''u1'', chat_message ''assistant'' ''a1'']"
    "sessions chatting = session ''s1'' # [session ''s2'']"
    "\<not> truthy (currentSessionId initial_state)"
    by (simp_all add: trim_hello)
  have ids: "get_prop (session ''s1'') ''id'' = Inr (JStr ''s1'')"
    "get_prop (session ''s2'') ''id'' = Inr (JStr ''s2'')"
    by simp_all
  have down:
    "loadSessions scripted (apiBase chatting) (t, []) = (Inl ?e, (t, []))"
    "getMessages scripted (apiBase chatting) (JStr ''s2'') ?w = (Inl ?e, ?w)"
    "createSession scripted (apiBase chatting) ?w = (Inl ?e, ?w)"
    "getMessages scripted (apiBase chatting) (currentSessionId chatting) ?w = (Inl ?e, ?w)"
    "sendMessage scripted (apiBase chatting) (currentSessionId chatting) (trim (newMessage chatting)) ?w
       = (Inl ?e, ?w)"
    "rollback scripted (apiBase chatting) (currentSessionId chatting) 2 ?w = (Inl ?e, ?w)"
    "deleteMessage scripted (apiBase chatting) (currentSessionId chatting) 2 ?w = (Inl ?e, ?w)"
    "deleteSession scripted (apiBase chatting) (JStr ''s1'') ?w = (Inl ?e, ?w)"
    for t
    by (simp_all add: loadSessions_def getMessages_def createSession_def sendMessage_def
        rollback_def deleteMessage_def deleteSession_def)
  have yes: "confirm scripted question x = (True, x)" for question x
    by simp
  have la: "loadSessions scripted (apiBase initial_state) ?a
            = (Inr (JArr (session ''s1'' # [session ''s2''])), (5, []))"
    "getMessages scripted (apiBase initial_state) (JStr ''s1'') (5, []) = (Inl ?e, (5, []))"
    by (simp_all add: loadSessions_def getMessages_def)
  have lb: "createSession scripted (apiBase chatting) ?b = (Inr (session ''s3''), (5, []))"
    by (simp add: createSession_def)
  have lc: "createSession scripted (apiBase initial_state) ?c = (Inr (session ''s1''), ?c1)"
    "loadSessions scripted (apiBase initial_state) ?c1 = (Inr (JArr (session ''s1'' # [])), (10, []))"
    "getMessages scripted (apiBase initial_state) (JStr ''s1'') (10, []) = (Inl ?e, (10, []))"
    by (simp_all add: createSession_def loadSessions_def getMessages_def)
  have ld: "sendMessage scripted (apiBase chatting) (currentSessionId chatting)
              (trim (newMessage chatting)) ?d = (Inr (JArr ?ds), (5, []))"
    "rollback scripted (apiBase chatting) (currentSessionId chatting) 2 ?d = (Inr (JArr ?ds), (5, []))"
    "deleteMessage scripted (apiBase chatting) (currentSessionId chatting) 2 ?d
       = (Inr (JArr ?ds), (5, []))"
    by (simp_all add: sendMessage_def rollback_def deleteMessage_def)
  have lf: "deleteSession scripted (apiBase chatting) sid ?f = (Inr ?r, (5, []))" for sid
    by (simp add: deleteSession_def)
  have lg: "deleteSession scripted (apiBase chatting) (JStr ''s1'') ?g = (Inr ?r, ?g1)"
    "loadSessions scripted (apiBase chatting) ?g1 = (Inr (JArr (session ''s2'' # [])), (10, []))"
    "getMessages scripted (apiBase chatting) (JStr ''s2'') (10, []) = (Inl ?e, (10, []))"
    by (simp_all add: deleteSession_def loadSessions_def getMessages_def)
  have c1: "observable (fst (loadSessionsList scripted chatting (0, []))) = observable chatting"
    using gateway_failure_outcomes [where P = scripted and st = chatting and w = ?w
        and e = ?e and ?w1.0 = ?w and ?w0.0 = ?w,
        THEN conjunct1]
      sel down yes
    by (simp add: observable_def)
  have c2: "observable (fst (selectSession scripted (JStr ''s2'') chatting (0, [])))
           = (sessions chatting, JStr ''s2'', messages chatting)"
    using gateway_failure_outcomes [where P = scripted and st = chatting and w = ?w
        and e = ?e and ?w1.0 = ?w and ?w0.0 = ?w and ident = "JStr ''s2''",
        THEN conjunct2, THEN conjunct1]
      sel down yes
    by (simp add: observable_def)
  have c3: "observable (fst (createNewSession scripted chatting (0, []))) = observable chatting"
    using gateway_failure_outcomes [where P = scripted and st = chatting and w = ?w
        and e = ?e and ?w1.0 = ?w and ?w0.0 = ?w,
        THEN conjunct2, THEN conjunct2, THEN conjunct1]
      sel down yes
    by (simp add: observable_def)
  have c4: "observable (fst (loadMessagesList scripted chatting (0, []))) = observable chatting"
    using gateway_failure_outcomes [where P = scripted and st = chatting and w = ?w
        and e = ?e and ?w1.0 = ?w and ?w0.0 = ?w,
        THEN conjunct2, THEN conjunct2, THEN conjunct2, THEN conjunct1]
      sel down yes
    by (simp add: observable_def)
  have c5: "observable (fst (snd (sendMsg scripted chatting (0, [])))) = observable chatting"
    using gateway_failure_outcomes [where P = scripted and st = chatting and w = ?w
        and e = ?e and ?w1.0 = ?w and ?w0.0 = ?w and ms = "[chat_message ''user'' ''u0'', chat_message ''assistant'' ''a0'',
                 chat_message ''user'' ''u1'', chat_message ''assistant'' ''a1'']",
        THEN conjunct2, THEN conjunct2, THEN conjunct2, THEN conjunct2, THEN conjunct1]
      sel down yes
    by (simp add: observable_def)
  have c6: "observable (fst (rollbackTo scripted 2 chatting (0, []))) = observable chatting"
    using gateway_failure_outcomes [where P = scripted and st = chatting and w = ?w
        and e = ?e and ?w1.0 = ?w and ?w0.0 = ?w and i = 2,
        THEN conjunct2, THEN conjunct2, THEN conjunct2, THEN conjunct2, THEN conjunct2,
        THEN conjunct1]
      sel down yes
    by (simp add: observable_def)
  have c7: "observable (fst (deleteMsg scripted 2 chatting (0, []))) = observable chatting"
    using gateway_failure_outcomes [where P = scripted and st = chatting and w = ?w
        and e = ?e and ?w1.0 = ?w and ?w0.0 = ?w and i = 2,
        THEN conjunct2, THEN conjunct2, THEN conjunct2, THEN conjunct2, THEN conjunct2,
        THEN conjunct2, THEN conjunct1]
      sel down yes
    by (simp add: observable_def)
  have c8: "observable (fst (deleteSess scripted (JStr ''s1'') chatting (0, []))) = observable chatting"
    using gateway_failure_outcomes [where P = scripted and st = chatting and w = ?w
        and e = ?e and ?w1.0 = ?w and ?w0.0 = ?w and sid = "JStr ''s1''",
        THEN conjunct2, THEN conjunct2, THEN conjunct2, THEN conjunct2, THEN conjunct2,
        THEN conjunct2, THEN conjunct2, THEN conjunct1]
      sel down yes
    by (simp add: observable_def)
  have c9: "observable (fst (loadSessionsList scripted initial_state
            (0, [(5, json_response (JArr [session ''s1'', session ''s2'']))])))
           = ([session ''s1'', session ''s2''], JStr ''s1'', JArr [])"
    using gateway_failure_outcomes [where P = scripted and st = initial_state and w = ?a
        and s = "session ''s1''" and rest = "[session ''s2'']"
        and ?w1.0 = "(5, [])" and v = "JStr ''s1''" and e = ?e and ?w2.0 = "(5, [])",
        THEN conjunct2, THEN conjunct2, THEN conjunct2, THEN conjunct2, THEN conjunct2,
        THEN conjunct2, THEN conjunct2, THEN conjunct2, THEN conjunct1]
      sel ids la
    by (simp add: observable_def)
  have c10: "observable (fst (createNewSession scripted chatting (0, [(5, json_response (session ''s3''))])))
           = (sessions chatting, JStr ''s1'', JArr [])"
    using gateway_failure_outcomes [where P = scripted and st = chatting and w = ?b
        and r = "session ''s3''" and ?w1.0 = "(5, [])"
        and e = ?e and ?w2.0 = "(5, [])",
        THEN conjunct2, THEN conjunct2, THEN conjunct2, THEN conjunct2, THEN conjunct2,
        THEN conjunct2, THEN conjunct2, THEN conjunct2, THEN conjunct2, THEN conjunct1]
      sel lb down
    by (simp add: observable_def)
  have c11: "observable (fst (createNewSession scripted initial_state
            (0, [(5, json_response (session ''s1'')), (5, json_response (JArr [session ''s1'']))])))
           = ([session ''s1''], JStr ''s1'', JArr [])"
    using gateway_failure_outcomes [where P = scripted and st = initial_state and w = ?c
        and r = "session ''s1''" and ?w1.0 = ?c1
        and s = "session ''s1''" and rest = "[]" and ?w2.0 = "(10, [])" and v = "JStr ''s1''"
        and e = ?e and ?w3.0 = "(10, [])",
        THEN conjunct2, THEN conjunct2, THEN conjunct2, THEN conjunct2, THEN conjunct2,
        THEN conjunct2, THEN conjunct2, THEN conjunct2, THEN conjunct2, THEN conjunct2,
        THEN conjunct1]
      sel ids lc
    by (simp add: observable_def)
  have c12: "observable (fst (snd (sendMsg scripted chatting
            (0, [(5, json_response (JArr [chat_message ''user'' ''hello'', chat_message ''assistant'' ''hi'']))]))))
           = (sessions chatting, JStr ''s1'', JArr [chat_message ''user'' ''hello'', chat_message ''assistant'' ''hi''])"
    using gateway_failure_outcomes [where P = scripted and st = chatting and w = ?d
        and ms = "[chat_message ''user'' ''u0'', chat_message ''assistant'' ''a0'',
                 chat_message ''user'' ''u1'', chat_message ''assistant'' ''a1'']"
        and ds = ?ds and ?w1.0 = "(5, [])" and e = ?e and ?w2.0 = "(5, [])",
        THEN conjunct2, THEN conjunct2, THEN conjunct2, THEN conjunct2, THEN conjunct2,
        THEN conjunct2, THEN conjunct2, THEN conjunct2, THEN conjunct2, THEN conjunct2,
        THEN conjunct2, THEN conjunct1]
      sel ld down
    by (simp add: observable_def)
  have c13: "observable (fst (rollbackTo scripted 2 chatting
            (0, [(5, json_response (JArr [chat_message ''user'' ''hello'', chat_message ''assistant'' ''hi'']))])))
           = (sessions chatting, JStr ''s1'', JArr [chat_message ''user'' ''hello'', chat_message ''assistant'' ''hi''])"
    using gateway_failure_outcomes [where P = scripted and st = chatting and w = ?d
        and i = 2 and ds = ?ds and ?w1.0 = "(5, [])"
        and e = ?e and ?w2.0 = "(5, [])",
        THEN conjunct2, THEN conjunct2, THEN conjunct2, THEN conjunct2, THEN conjunct2,
        THEN conjunct2, THEN conjunct2, THEN conjunct2, THEN conjunct2, THEN conjunct2,
        THEN conjunct2, THEN conjunct2, THEN conjunct1]
      sel ld down
    by (simp add: observable_def)
  have c14: "observable (fst (deleteMsg scripted 2 chatting
            (0, [(5, json_response (JArr [chat_message ''user'' ''hello'', chat_message ''assistant'' ''hi'']))])))
           = (sessions chatting, JStr ''s1'', JArr [chat_message ''user'' ''hello'', chat_message ''assistant'' ''hi''])"
    using gateway_failure_outcomes [where P = scripted and st = chatting and w = ?d
        and i = 2 and ?w0.0 = ?d and ds = ?ds
        and ?w1.0 = "(5, [])" and e = ?e and ?w2.0 = "(5, [])",
        THEN conjunct2, THEN conjunct2, THEN conjunct2, THEN conjunct2, THEN conjunct2,
        THEN conjunct2, THEN conjunct2, THEN conjunct2, THEN conjunct2, THEN conjunct2,
        THEN conjunct2, THEN conjunct2, THEN conjunct2, THEN conjunct1]
      sel ld down yes
    by (simp add: observable_def)
  have c15: "observable (fst (deleteSess scripted (JStr ''s2'') chatting
            (0, [(5, json_response (JObj [(''message'', JStr ''deleted'')]))]))) = observable chatting"
    using gateway_failure_outcomes [where P = scripted and st = chatting and w = ?f
        and sid = "JStr ''s2''" and ?w0.0 = ?f and r = ?r
        and ?w1.0 = "(5, [])" and e = ?e and ?w2.0 = "(5, [])",
        THEN conjunct2, THEN conjunct2, THEN conjunct2, THEN conjunct2, THEN conjunct2,
        THEN conjunct2, THEN conjunct2, THEN conjunct2, THEN conjunct2, THEN conjunct2,
        THEN conjunct2, THEN conjunct2, THEN conjunct2, THEN conjunct2, THEN conjunct1]
      sel lf down yes
    by (simp add: observable_def)
  have c16: "currentSessionId (fst (deleteSess scripted (JStr ''s1'') chatting
            (0, [(5, json_response (JObj [(''message'', JStr ''deleted'')]))]))) = JStr ''s1''"
    using gateway_failure_outcomes [where P = scripted and st = chatting and w = ?f
        and sid = "JStr ''s1''" and s = "session ''s1''"
        and rest = "[session ''s2'']" and v = "JStr ''s1''" and ?w0.0 = ?f and r = ?r
        and ?w1.0 = "(5, [])" and e = ?e and ?w2.0 = "(5, [])",
        THEN conjunct2, THEN conjunct2, THEN conjunct2, THEN conjunct2, THEN conjunct2,
        THEN conjunct2, THEN conjunct2, THEN conjunct2, THEN conjunct2, THEN conjunct2,
        THEN conjunct2, THEN conjunct2, THEN conjunct2, THEN conjunct2, THEN conjunct2,
        THEN conjunct1]
      sel ids lf down yes
    by (simp add: observable_def)
  have c17: "observable (fst (deleteSess scripted (JStr ''s1'') chatting
            (0, [(5, json_response (JObj [(''message'', JStr ''deleted'')])),
                 (5, json_response (JArr [session ''s2'']))])))
           = ([session ''s2''], JStr ''s2'', messages chatting)"
    using gateway_failure_outcomes [where P = scripted and st = chatting and w = ?g
        and sid = "JStr ''s1''" and ?w0.0 = ?g and r = ?r
        and ?w1.0 = ?g1 and s = "session ''s2''" and rest = "[]" and ?w2.0 = "(10, [])"
        and v = "JStr ''s2''" and e = ?e and ?w3.0 = "(10, [])",
        THEN conjunct2, THEN conjunct2, THEN conjunct2, THEN conjunct2, THEN conjunct2,
        THEN conjunct2, THEN conjunct2, THEN conjunct2, THEN conjunct2, THEN conjunct2,
        THEN conjunct2, THEN conjunct2, THEN conjunct2, THEN conjunct2, THEN conjunct2,
        THEN conjunct2, THEN conjunct1]
      sel ids lg yes
    by (simp add: observable_def)
  have lh: "getMessages scripted (apiBase chatting) (JStr ''s1'') (5, []) = (Inl ?e, (5, []))"
    "deleteSession scripted (apiBase (chatting\<lparr>sessions := []\<rparr>)) (JStr ''s1'') ?f = (Inr ?r, (5, []))"
    "loadSessions scripted (apiBase (chatting\<lparr>sessions := []\<rparr>)) (5, []) = (Inl ?e, (5, []))"
    "truthy (JStr ''s1'')" "currentSessionId (chatting\<lparr>sessions := []\<rparr>) = JStr ''s1''"
    "sessions (chatting\<lparr>sessions := []\<rparr>) = []"
    "messages (chatting\<lparr>sessions := []\<rparr>) = messages chatting"
    by (simp_all add: getMessages_def deleteSession_def loadSessions_def)
  have li: "deleteSession scripted (apiBase initial_state) (JStr ''s9'') ?g = (Inr ?r, ?g1)"
    "loadSessions scripted (apiBase initial_state) ?g1 = (Inr (JArr (session ''s2'' # [])), (10, []))"
    "getMessages scripted (apiBase initial_state) (JStr ''s2'') (10, []) = (Inl ?e, (10, []))"
    "JStr ''s2'' \<noteq> JStr ''s9''" "truthy (JStr ''s2'')"
    by (simp_all add: deleteSession_def loadSessions_def getMessages_def)
  have c18: "observable (fst (deleteSess scripted (JStr ''s1'') chatting
            (0, [(5, json_response (JObj [(''message'', JStr ''deleted'')]))])))
           = (sessions chatting, JStr ''s1'', messages chatting)"
    using gateway_failure_outcomes [where P = scripted and st = chatting and w = ?f
        and sid = "JStr ''s1''" and s = "session ''s1''" and rest = "[session ''s2'']"
        and v = "JStr ''s1''" and ?w0.0 = ?f and r = ?r and ?w1.0 = "(5, [])" and e = ?e
        and ?w2.0 = "(5, [])" and e' = ?e and ?w3.0 = "(5, [])",
        THEN conjunct2, THEN conjunct2, THEN conjunct2, THEN conjunct2, THEN conjunct2,
        THEN conjunct2, THEN conjunct2, THEN conjunct2, THEN conjunct2, THEN conjunct2,
        THEN conjunct2, THEN conjunct2, THEN conjunct2, THEN conjunct2, THEN conjunct2,
        THEN conjunct2, THEN conjunct2, THEN conjunct1]
      sel ids lf lh down yes
    by (simp add: observable_def)
  have c19: "observable (fst (deleteSess scripted (JStr ''s1'') (chatting\<lparr>sessions := []\<rparr>)
            (0, [(5, json_response (JObj [(''message'', JStr ''deleted'')]))])))
           = ([], JNull, JArr [])"
    using gateway_failure_outcomes [where P = scripted and st = "chatting\<lparr>sessions := []\<rparr>" and w = ?f
        and sid = "JStr ''s1''" and ?w0.0 = ?f and r = ?r and ?w1.0 = "(5, [])" and e = ?e
        and ?w2.0 = "(5, [])",
        THEN conjunct2, THEN conjunct2, THEN conjunct2, THEN conjunct2, THEN conjunct2,
        THEN conjunct2, THEN conjunct2, THEN conjunct2, THEN conjunct2, THEN conjunct2,
        THEN conjunct2, THEN conjunct2, THEN conjunct2, THEN conjunct2, THEN conjunct2,
        THEN conjunct2, THEN conjunct2, THEN conjunct2, THEN conjunct1]
      lh yes
    by (simp add: observable_def)
  have c20: "observable (fst (deleteSess scripted (JStr ''s9'') initial_state
            (0, [(5, json_response (JObj [(''message'', JStr ''deleted'')])),
                 (5, json_response (JArr [session ''s2'']))])))
           = ([session ''s2''], JStr ''s2'', JArr [])"
    using gateway_failure_outcomes [where P = scripted and st = initial_state and w = ?g
        and sid = "JStr ''s9''" and v = "JStr ''s2''" and ?w0.0 = ?g and r = ?r and ?w1.0 = ?g1
        and s = "session ''s2''" and rest = "[]" and ?w2.0 = "(10, [])" and e = ?e
        and ?w3.0 = "(10, [])",
        THEN conjunct2, THEN conjunct2, THEN conjunct2, THEN conjunct2, THEN conjunct2,
        THEN conjunct2, THEN conjunct2, THEN conjunct2, THEN conjunct2, THEN conjunct2,
        THEN conjunct2, THEN conjunct2, THEN conjunct2, THEN conjunct2, THEN conjunct2,
        THEN conjunct2, THEN conjunct2, THEN conjunct2, THEN conjunct2]
      sel ids li yes
    by (simp add: observable_def)
  from c1 c2 c3 c4 c5 c6 c7 c8 c9 c10 c11 c12 c13 c14 c15 c16 c17 c18 c19 c20
  show ?thesis by blast
qed

text \<open>
  C2 as stated fails, in two ways. With session \<open>s1\<close> selected and its four messages on
  display, selecting \<open>s2\<close> while the fetch of its messages is answered with 404 ends with the
  pointer on \<open>s2\<close> and the messages of \<open>s1\<close> still in the message list. And a send whose
  append call succeeds and whose refresh of the session list fails ends with the messages
  that the append call returned, not with those before the transition.
\<close>

theorem failures_not_rolled_back:
  "getMessages scripted (apiBase chatting) (JStr ''s2'') (0, [(5, error_response 404 ''Not Found'')])
     = (Inl (Error (''API error: '' @ show_nat 404 @ '' Not Found'')), (5, []))
   \<and> observable (fst (selectSession scripted (JStr ''s2'') chatting
                        (0, [(5, error_response 404 ''Not Found'')])))
       = (sessions chatting, JStr ''s2'', messages chatting)
   \<and> observable (fst (selectSession scripted (JStr ''s2'') chatting
                        (0, [(5, error_response 404 ''Not Found'')]))) \<noteq> observable chatting
   \<and> loadSessions scripted (apiBase chatting) (5, []) = (Inl (TypeError ''Failed to fetch''), (5, []))
   \<and> observable (fst (snd (sendMsg scripted chatting
          (0, [(5, json_response (JArr [chat_message ''user'' ''hello'',
                                        chat_message ''assistant'' ''hi'']))]))))
       = (sessions chatting, JStr ''s1'',
          JArr [chat_message ''user'' ''hello'', chat_message ''assistant'' ''hi''])
   \<and> observable (fst (snd (sendMsg scripted chatting
          (0, [(5, json_response (JArr [chat_message ''user'' ''hello'',
                                        chat_message ''assistant'' ''hi'']))]))))
       \<noteq> observable chatting"
proof -
  let ?ds = "[chat_message ''user'' ''hello'', chat_message ''assistant'' ''hi'']"
  let ?d = "(0, [(5, json_response (JArr ?ds))]) :: script"
  have g: "getMessages scripted (apiBase chatting) (JStr ''s2'') (0, [(5, error_response 404 ''Not Found'')])
     = (Inl (Error (''API error: '' @ show_nat 404 @ '' Not Found'')), (5, []))"
    by (simp add: getMessages_def del: show_nat.simps)
  have a: "observable (fst (selectSession scripted (JStr ''s2'') chatting
                        (0, [(5, error_response 404 ''Not Found'')])))
       = (sessions chatting, JStr ''s2'', messages chatting)"
    using g
    by (simp add: selectSession_def strict_eq_def loadMessagesList_def Let_def observable_def
        del: show_nat.simps)
  have r: "loadSessions scripted (apiBase chatting) (5, []) = (Inl (TypeError ''Failed to fetch''), (5, []))"
    by (simp add: loadSessions_def)
  have s: "sendMessage scripted (apiBase chatting) (currentSessionId chatting)
             (trim (newMessage chatting)) ?d = (Inr (JArr ?ds), (5, []))"
    by (simp add: sendMessage_def)
  have b: "observable (fst (snd (sendMsg scripted chatting ?d)))
           = (sessions chatting, JStr ''s1'', JArr ?ds)"
    using r s
    by (simp add: sendMsg_def Let_def trim_hello store_messages_def loadSessionsList_rejected
        observable_def del: show_nat.simps)
  have ne: "JArr ?ds \<noteq> messages chatting" by simp
  from g a r b ne show ?thesis by (simp add: observable_def del: show_nat.simps)
qed

section \<open>The error slot\<close>

text \<open>
  C7. An error placed in the slot is to stay for five seconds, a newer error having a
  lifetime of its own; \<^verbatim>\<open>setError\<close> is documented to make its message disappear after five
  seconds. The code never cancels the callback it queued for an older error. In this run
  a fetch of messages fails at time 0 and a rollback fails at time 3000: the message of the
  rollback is in the slot from time 3000 on, with a callback of its own due at time 8000,
  and the callback of the first failure, due at time 5000, empties the slot two seconds
  after that message was placed.
\<close>

theorem older_expiry_clears_newer_error:
  "error (fst (loadMessagesList scripted chatting (0, [])))
     = msg_load_messages_failed @ ''Failed to fetch''
   \<and> timeouts (fst (loadMessagesList scripted chatting (0, []))) = [5000]
   \<and> error (fst (rollbackTo scripted 1
               (fire_timeouts 3000 (fst (loadMessagesList scripted chatting (0, [])))) (3000, [])))
     = msg_rollback_failed @ ''Failed to fetch''
   \<and> timeouts (fst (rollbackTo scripted 1
               (fire_timeouts 3000 (fst (loadMessagesList scripted chatting (0, [])))) (3000, [])))
     = [5000, 8000]
   \<and> error (fire_timeouts 5000 (fst (rollbackTo scripted 1
               (fire_timeouts 3000 (fst (loadMessagesList scripted chatting (0, [])))) (3000, []))))
     = []"
proof -
  let ?e = "TypeError ''Failed to fetch''"
  let ?a = "fst (loadMessagesList scripted chatting (0, []))"
  have g: "getMessages scripted (apiBase chatting) (currentSessionId chatting) (0, []) = (Inl ?e, (0, []))"
    by (simp add: getMessages_def)
  have a: "?a = (setError 0 (msg_load_messages_failed @ ''Failed to fetch'')
                  (resume scripted (0, []) ((setError 0 [] chatting)\<lparr>loading := True\<rparr>)))
                \<lparr>loading := False\<rparr>"
    using loadMessagesList_rejected [of chatting scripted "(0, [])" ?e "(0, [])"] g by simp
  have a_err: "error ?a = msg_load_messages_failed @ ''Failed to fetch''"
    and a_tm: "timeouts ?a = [5000]"
    and a_sel: "currentSessionId ?a = JStr ''s1''" and a_base: "apiBase ?a = apiBase chatting"
    by (simp_all add: a)
  let ?a3 = "fire_timeouts 3000 ?a"
  have r: "rollback scripted (apiBase ?a3) (currentSessionId ?a3) 1 (3000, []) = (Inl ?e, (3000, []))"
    by (simp add: rollback_def)
  have b: "fst (rollbackTo scripted 1 ?a3 (3000, []))
           = (setError 3000 (msg_rollback_failed @ ''Failed to fetch'')
                (resume scripted (3000, []) ((setError 3000 [] ?a3)\<lparr>loading := True\<rparr>)))
               \<lparr>loading := False\<rparr>"
    using rollbackTo_rejected [of ?a3 scripted 1 "(3000, [])" ?e "(3000, [])"] r a_sel by simp
  have b_err: "error (fst (rollbackTo scripted 1 ?a3 (3000, []))) = msg_rollback_failed @ ''Failed to fetch''"
    by (simp add: b)
  have b_tm: "timeouts (fst (rollbackTo scripted 1 ?a3 (3000, []))) = [5000, 8000]"
    by (simp add: b a_tm)
  have c: "error (fire_timeouts 5000 (fst (rollbackTo scripted 1 ?a3 (3000, [])))) = []"
    by (simp add: b_tm)
  from a_err a_tm b_err b_tm c show ?thesis by blast
qed

end
